theory Spec2Isabelle
  imports Complex_Main
begin

section \<open>Numbers, vectors and matrices\<close>

text \<open>
  The program computes with \<^verbatim>\<open>float\<close> and \<^verbatim>\<open>double\<close>. They are modelled by the real
  numbers, without rounding. A float that is not a number is \<open>None\<close>: every division of the
  source by a variable is written with \<open>fdiv\<close>, which has no value when the divisor is
  zero (the float is then a NaN, for \<open>0 / 0\<close>, or an infinity), and the functions that
  perform such a division return an option. Only a division by a non-zero constant is the
  division of the reals.
\<close>

definition fdiv :: "real \<Rightarrow> real \<Rightarrow> real option" where
  "fdiv x y = (if y = 0 then None else Some (x / y))"

text \<open>\<^verbatim>\<open>std::min(a, b)\<close> is \<^verbatim>\<open>(b < a) ? b : a\<close> and \<^verbatim>\<open>std::max(a, b)\<close> is
  \<^verbatim>\<open>(a < b) ? b : a\<close>, and a comparison with a NaN is false: both return their first
  argument when either argument is a NaN. In the two places that use them on a quotient,
  an infinity in place of the NaN gives the same result: the arccosine of an infinity is a
  NaN, and the square of an infinity is the positive infinity, which \<^verbatim>\<open>std::max\<close> returns
  as its first argument.\<close>

definition std_min :: "real option \<Rightarrow> real option \<Rightarrow> real option" where
  "std_min a b =
     (case a of
        None \<Rightarrow> a
      | Some x \<Rightarrow> (case b of None \<Rightarrow> a | Some y \<Rightarrow> if y < x then b else a))"

definition std_max :: "real option \<Rightarrow> real option \<Rightarrow> real option" where
  "std_max a b =
     (case a of
        None \<Rightarrow> a
      | Some x \<Rightarrow> (case b of None \<Rightarrow> a | Some y \<Rightarrow> if x < y then b else a))"

text \<open>\<^verbatim>\<open>glm::vec3\<close> and \<^verbatim>\<open>glm::mat3\<close>; a matrix is stored by columns, \<^verbatim>\<open>m[i]\<close> is
  column \<open>i\<close> and \<^verbatim>\<open>m[i][j]\<close> its component \<open>j\<close>. The source indexes with the literals
  0, 1 and 2 only.\<close>

type_synonym vec3 = "real \<times> real \<times> real"
type_synonym mat3 = "vec3 \<times> vec3 \<times> vec3"

datatype idx = I0 | I1 | I2

fun vec_at :: "vec3 \<Rightarrow> idx \<Rightarrow> real" where
  "vec_at (x, y, z) I0 = x"
| "vec_at (x, y, z) I1 = y"
| "vec_at (x, y, z) I2 = z"

fun vec_set :: "vec3 \<Rightarrow> idx \<Rightarrow> real \<Rightarrow> vec3" where
  "vec_set (x, y, z) I0 v = (v, y, z)"
| "vec_set (x, y, z) I1 v = (x, v, z)"
| "vec_set (x, y, z) I2 v = (x, y, v)"

fun col :: "mat3 \<Rightarrow> idx \<Rightarrow> vec3" where
  "col (c0, c1, c2) I0 = c0"
| "col (c0, c1, c2) I1 = c1"
| "col (c0, c1, c2) I2 = c2"

fun col_set :: "mat3 \<Rightarrow> idx \<Rightarrow> vec3 \<Rightarrow> mat3" where
  "col_set (c0, c1, c2) I0 c = (c, c1, c2)"
| "col_set (c0, c1, c2) I1 c = (c0, c, c2)"
| "col_set (c0, c1, c2) I2 c = (c0, c1, c)"

definition mat_at :: "mat3 \<Rightarrow> idx \<Rightarrow> idx \<Rightarrow> real" where
  "mat_at m i j = vec_at (col m i) j"

definition mat_set :: "mat3 \<Rightarrow> idx \<Rightarrow> idx \<Rightarrow> real \<Rightarrow> mat3" where
  "mat_set m i j v = col_set m i (vec_set (col m i) j v)"

fun vadd :: "vec3 \<Rightarrow> vec3 \<Rightarrow> vec3" where
  "vadd (x, y, z) (x', y', z') = (x + x', y + y', z + z')"

fun smul :: "real \<Rightarrow> vec3 \<Rightarrow> vec3" where
  "smul k (x, y, z) = (k * x, k * y, k * z)"

fun dot :: "vec3 \<Rightarrow> vec3 \<Rightarrow> real" where
  "dot (x, y, z) (x', y', z') = x * x' + y * y' + z * z'"

text \<open>\<^verbatim>\<open>glm::normalize(v)\<close> is \<^verbatim>\<open>v * inversesqrt(dot(v, v))\<close>: an unguarded division
  by the length.\<close>

definition normalize :: "vec3 \<Rightarrow> vec3 option" where
  "normalize v = map_option (\<lambda>k. smul k v) (fdiv 1 (sqrt (dot v v)))"

section \<open>Constants\<close>

definition Nsample :: nat where
  "Nsample = 32"

definition MIN_ALPHA :: real where
  "MIN_ALPHA = 0.0001"

section \<open>The reflectance model\<close>

text \<open>\<^verbatim>\<open>class Brdf\<close> (brdf.h) is an interface with two virtual functions; \<^verbatim>\<open>eval\<close>
  returns the reflectance and writes the density to its \<^verbatim>\<open>pdf\<close> argument, which is the
  second component here.\<close>

record Brdf =
  brdf_sample :: "vec3 \<Rightarrow> real \<Rightarrow> real \<Rightarrow> real \<Rightarrow> vec3"
  brdf_eval :: "vec3 \<Rightarrow> vec3 \<Rightarrow> real \<Rightarrow> real \<times> real"

section \<open>The estimators over the stratified grid\<close>

text \<open>The centre of stratum \<open>k\<close>: \<^verbatim>\<open>(k+0.5f)/(float)Nsample\<close>.\<close>

definition stratum :: "nat \<Rightarrow> real" where
  "stratum k = (real k + 0.5) / real Nsample"

text \<open>The sum of two floats, and of two vectors, either of which may have no value.\<close>

definition oadd :: "real option \<Rightarrow> real option \<Rightarrow> real option" where
  "oadd x y = (case x of None \<Rightarrow> None | Some u \<Rightarrow> (case y of None \<Rightarrow> None | Some v \<Rightarrow> Some (u + v)))"

definition ovadd :: "vec3 option \<Rightarrow> vec3 option \<Rightarrow> vec3 option" where
  "ovadd x y = (case x of None \<Rightarrow> None | Some u \<Rightarrow> (case y of None \<Rightarrow> None | Some v \<Rightarrow> Some (vadd u v)))"

text \<open>In both estimators the division \<^verbatim>\<open>eval / pdf\<close> stands behind the test
  \<^verbatim>\<open>pdf > 0\<close>; it is the partial division all the same, so that the estimators have a
  value only if the test keeps every zero divisor away from it.\<close>

definition computeNorm :: "Brdf \<Rightarrow> vec3 \<Rightarrow> real \<Rightarrow> real option" where
  "computeNorm brdf V alpha =
     (let norm = fold (\<lambda>j. fold (\<lambda>i norm.
            let U1 = stratum i;
                U2 = stratum j;
                L = brdf_sample brdf V alpha U1 U2;
                (eval, pdf) = brdf_eval brdf V L alpha
            in oadd norm (if pdf > 0 then fdiv eval pdf else Some 0))
              [0..<Nsample]) [0..<Nsample] (Some 0)
      in map_option (\<lambda>norm. norm / real (Nsample * Nsample)) norm)"

definition computeAverageDir :: "Brdf \<Rightarrow> vec3 \<Rightarrow> real \<Rightarrow> vec3 option" where
  "computeAverageDir brdf V alpha =
     (let averageDir = fold (\<lambda>j. fold (\<lambda>i averageDir.
            let U1 = stratum i;
                U2 = stratum j;
                L = brdf_sample brdf V alpha U1 U2;
                (eval, pdf) = brdf_eval brdf V L alpha
            in ovadd averageDir
                 (if pdf > 0 then map_option (\<lambda>w. smul w L) (fdiv eval pdf) else Some (0, 0, 0)))
              [0..<Nsample]) [0..<Nsample] (Some (0, 0, 0))
      in case averageDir of
           None \<Rightarrow> None
         | Some averageDir \<Rightarrow>
             let averageDir = vec_set averageDir I1 0
             in normalize averageDir)"

section \<open>The lobe\<close>

text \<open>\<^verbatim>\<open>struct LTC\<close> is declared in LTC.h, which is not among the sources. The fields this
  file reads and writes are the amplitude, the three free scalars, the frame and the matrix.\<close>

record LTC =
  amplitude :: real
  m11 :: real
  m22 :: real
  m13 :: real
  X :: vec3
  Y :: vec3
  Z :: vec3
  M :: mat3

type_synonym params = "real \<times> real \<times> real"

text \<open>What the fitting code takes from headers that are not among the sources:
  \<^verbatim>\<open>NelderMead<3>\<close> (nelder_mead.h), given the objective, the start vector, the perturbation,
  the tolerance and the iteration cap, returns the vector it writes to \<^verbatim>\<open>resultFit\<close>;
  \<^verbatim>\<open>LTC::sample\<close> and \<^verbatim>\<open>LTC::eval\<close> read the lobe; \<open>ltc_matrix\<close> is the matrix that
  \<^verbatim>\<open>LTC::update\<close> computes from the three scalars and the frame.\<close>

record Env =
  NelderMead :: "(params \<Rightarrow> real option) \<Rightarrow> params \<Rightarrow> real \<Rightarrow> real \<Rightarrow> nat \<Rightarrow> params"
  ltc_sample :: "LTC \<Rightarrow> real \<Rightarrow> real \<Rightarrow> vec3"
  ltc_eval :: "LTC \<Rightarrow> vec3 \<Rightarrow> real"
  ltc_matrix :: "real \<Rightarrow> real \<Rightarrow> real \<Rightarrow> vec3 \<Rightarrow> vec3 \<Rightarrow> vec3 \<Rightarrow> mat3"

text \<open>Modelled from the spec: \<^verbatim>\<open>LTC::update\<close> of LTC.h. It recomputes what is derived
  from the free scalars and the frame (the matrix, and its inverse and determinant, which
  only \<^verbatim>\<open>LTC::sample\<close> and \<^verbatim>\<open>LTC::eval\<close> read) and changes nothing else.\<close>

definition LTC_update :: "Env \<Rightarrow> LTC \<Rightarrow> LTC" where
  "LTC_update env ltc =
     ltc\<lparr>M := ltc_matrix env (m11 ltc) (m22 ltc) (m13 ltc) (X ltc) (Y ltc) (Z ltc)\<rparr>"

section \<open>The error estimator\<close>

text \<open>The block "error with MIS weight", which the source writes out once for each of the
  two sampled directions.\<close>

definition misError :: "Env \<Rightarrow> LTC \<Rightarrow> Brdf \<Rightarrow> vec3 \<Rightarrow> real \<Rightarrow> vec3 \<Rightarrow> real option" where
  "misError env ltc brdf V alpha L =
     (let (eval_brdf, pdf_brdf) = brdf_eval brdf V L alpha;
          eval_ltc = ltc_eval env ltc L
      in case fdiv eval_ltc (amplitude ltc) of
           None \<Rightarrow> None
         | Some pdf_ltc \<Rightarrow>
             let error' = \<bar>eval_brdf - eval_ltc\<bar>;
                 error' = error' * error' * error'
             in fdiv error' (pdf_ltc + pdf_brdf))"

definition computeError :: "Env \<Rightarrow> LTC \<Rightarrow> Brdf \<Rightarrow> vec3 \<Rightarrow> real \<Rightarrow> real option" where
  "computeError env ltc brdf V alpha =
     (let error = fold (\<lambda>j. fold (\<lambda>i error.
            let U1 = stratum i;
                U2 = stratum j;
                error = (let L = ltc_sample env ltc U1 U2
                         in oadd error (misError env ltc brdf V alpha L));
                error = (let L = brdf_sample brdf V alpha U1 U2
                         in oadd error (misError env ltc brdf V alpha L))
            in error) [0..<Nsample]) [0..<Nsample] (Some 0)
      in map_option (\<lambda>error. error / real (Nsample * Nsample)) error)"

section \<open>The objective and the fit of one lobe\<close>

text \<open>\<^verbatim>\<open>struct FitLTC\<close> holds a reference to the lobe; here the lobe is passed in and
  returned.\<close>

record FitLTC =
  f_brdf :: Brdf
  f_isotropic :: bool
  f_V :: vec3
  f_alpha :: real

definition FitLTC_update :: "Env \<Rightarrow> FitLTC \<Rightarrow> params \<Rightarrow> LTC \<Rightarrow> LTC" where
  "FitLTC_update env fitter params ltc =
     (case params of (p0, p1, p2) \<Rightarrow>
        let m11' = max p0 MIN_ALPHA;
            m22' = max p1 MIN_ALPHA;
            m13' = p2;
            ltc = (if f_isotropic fitter
                   then ltc\<lparr>m11 := m11', m22 := m11', m13 := 0\<rparr>
                   else ltc\<lparr>m11 := m11', m22 := m22', m13 := m13'\<rparr>)
        in LTC_update env ltc)"

text \<open>\<^verbatim>\<open>FitLTC::operator()\<close>: the value of the objective and the lobe it leaves.\<close>

definition FitLTC_call :: "Env \<Rightarrow> FitLTC \<Rightarrow> params \<Rightarrow> LTC \<Rightarrow> real option \<times> LTC" where
  "FitLTC_call env fitter params ltc =
     (let ltc = FitLTC_update env fitter params ltc
      in (computeError env ltc (f_brdf fitter) (f_V fitter) (f_alpha fitter), ltc))"

text \<open>The optimizer calls the objective any number of times, each call overwriting the three
  scalars of the lobe; the update after it overwrites them once more. The objective handed to
  \<open>NelderMead\<close> is therefore the value of \<open>FitLTC_call\<close> on the lobe as it is when the fit
  starts (lemma \<open>FitLTC_call_forgets\<close> below: the value is the same on the lobe any earlier
  call has left).\<close>

definition fit :: "Env \<Rightarrow> LTC \<Rightarrow> Brdf \<Rightarrow> vec3 \<Rightarrow> real \<Rightarrow> real \<Rightarrow> bool \<Rightarrow> LTC" where
  "fit env ltc brdf V alpha epsilon isotropic =
     (let startFit = (m11 ltc, m22 ltc, m13 ltc);
          fitter = \<lparr>f_brdf = brdf, f_isotropic = isotropic, f_V = V, f_alpha = alpha\<rparr>;
          resultFit = NelderMead env (\<lambda>params. fst (FitLTC_call env fitter params ltc))
                        startFit epsilon (1 / 100000) 100
      in FitLTC_update env fitter resultFit ltc)"

section \<open>The grid-fit driver\<close>

text \<open>The arrays \<^verbatim>\<open>tab\<close> and \<^verbatim>\<open>tabAmplitude\<close> are stores from index to value, with
  whatever content the caller's allocation left in them; the lobe is the third component of
  the state that the loops thread.\<close>

record FitState =
  st_tab :: "int \<Rightarrow> mat3"
  st_tabAmplitude :: "int \<Rightarrow> real \<times> real"
  st_ltc :: LTC

text \<open>\<^verbatim>\<open>for (int i = hi; i >= lo; --i)\<close>; both loops of the driver have \<open>lo = 0\<close>.\<close>

function loop_down :: "(int \<Rightarrow> 's \<Rightarrow> 's option) \<Rightarrow> int \<Rightarrow> int \<Rightarrow> 's \<Rightarrow> 's option" where
  "loop_down body lo i s =
     (if i \<ge> lo
      then (case body i s of None \<Rightarrow> None | Some s' \<Rightarrow> loop_down body lo (i - 1) s')
      else Some s)"
  by pat_completeness auto
termination
  by (relation "measure (\<lambda>(body, lo, i, s). nat (i + 1 - lo))") auto

declare loop_down.simps [simp del]

text \<open>Lines 196 to 198 and 201 to 202: the view direction and the roughness of a cell. For
  \<open>N = 1\<close> both quotients have the divisor zero: \<^verbatim>\<open>std::min(1.57f, acosf(ct))\<close> has the
  constant first and returns it, \<^verbatim>\<open>std::max(roughness*roughness, MIN_ALPHA)\<close> has the
  constant second and returns the square, which is not a number.\<close>

definition viewDir :: "int \<Rightarrow> int \<Rightarrow> vec3 option" where
  "viewDir N t =
     (let ct = fdiv (real_of_int t) (real_of_int (N - 1));
          theta = std_min (Some 1.57) (map_option arccos ct)
      in map_option (\<lambda>theta. (sin theta, 0, cos theta)) theta)"

definition cellAlpha :: "int \<Rightarrow> int \<Rightarrow> real option" where
  "cellAlpha N a =
     (let roughness = fdiv (real_of_int a) (real_of_int (N - 1));
          alpha = std_max (map_option (\<lambda>roughness. roughness * roughness) roughness)
                    (Some MIN_ALPHA)
      in alpha)"

text \<open>Step 1 of the loop body, "first guess for the fit": the lobe and the flag
  \<^verbatim>\<open>isotropic\<close>.\<close>

definition firstGuess ::
  "Env \<Rightarrow> int \<Rightarrow> int \<Rightarrow> int \<Rightarrow> vec3 option \<Rightarrow> (int \<Rightarrow> mat3) \<Rightarrow> LTC \<Rightarrow> (LTC \<times> bool) option" where
  "firstGuess env N a t averageDir tab ltc =
     (if t = N - 1
      then
        let ltc = ltc\<lparr>X := (1, 0, 0), Y := (0, 1, 0), Z := (0, 0, 1)\<rparr>;
            ltc = (if a = N - 1
                   then ltc\<lparr>m11 := 1, m22 := 1\<rparr>
                   else ltc\<lparr>m11 := max (mat_at (tab (a + 1 + t * N)) I0 I0) MIN_ALPHA,
                            m22 := max (mat_at (tab (a + 1 + t * N)) I1 I1) MIN_ALPHA\<rparr>);
            ltc = ltc\<lparr>m13 := 0\<rparr>
        in Some (LTC_update env ltc, True)
      else
        (case averageDir of
           None \<Rightarrow> None
         | Some L \<Rightarrow>
             let T1 = (vec_at L I2, 0, - vec_at L I0);
                 T2 = (0, 1, 0);
                 ltc = ltc\<lparr>X := T1, Y := T2, Z := L\<rparr>
             in Some (LTC_update env ltc, False)))"

text \<open>"copy data" and "kill useless coefs in matrix".\<close>

definition storeCell :: "int \<Rightarrow> int \<Rightarrow> int \<Rightarrow> LTC \<Rightarrow> FitState \<Rightarrow> FitState" where
  "storeCell N a t ltc s =
     (let tab = (st_tab s)(a + t * N := M ltc);
          amp = st_tabAmplitude s;
          amp = amp(a + t * N := (amplitude ltc, snd (amp (a + t * N))));
          amp = amp(a + t * N := (fst (amp (a + t * N)), 0));
          tab = tab(a + t * N := mat_set (tab (a + t * N)) I0 I1 0);
          tab = tab(a + t * N := mat_set (tab (a + t * N)) I1 I0 0);
          tab = tab(a + t * N := mat_set (tab (a + t * N)) I2 I1 0);
          tab = tab(a + t * N := mat_set (tab (a + t * N)) I1 I2 0)
      in \<lparr>st_tab = tab, st_tabAmplitude = amp, st_ltc = ltc\<rparr>)"

text \<open>The body of the two loops for the cell \<open>(a, t)\<close>. It has no value where the
  roughness is not a number (\<open>N = 1\<close>: the reflectance model is a function of real
  arguments), or where an interior cell takes its frame from an average direction that has
  none (the accumulated direction is the zero vector).\<close>

definition fitCell :: "Env \<Rightarrow> Brdf \<Rightarrow> int \<Rightarrow> int \<Rightarrow> int \<Rightarrow> FitState \<Rightarrow> FitState option" where
  "fitCell env brdf N a t s =
     (case viewDir N t of
        None \<Rightarrow> None
      | Some V \<Rightarrow>
     (case cellAlpha N a of
        None \<Rightarrow> None
      | Some alpha \<Rightarrow>
     (case computeNorm brdf V alpha of
        None \<Rightarrow> None
      | Some albedo \<Rightarrow>
          let ltc = (st_ltc s)\<lparr>amplitude := albedo\<rparr>;
              averageDir = computeAverageDir brdf V alpha
          in (case firstGuess env N a t averageDir (st_tab s) ltc of
                None \<Rightarrow> None
              | Some (ltc, isotropic) \<Rightarrow>
                  let epsilon = 0.05;
                      ltc = fit env ltc brdf V alpha epsilon isotropic
                  in Some (storeCell N a t ltc s)))))"

text \<open>The inner loop over \<open>t\<close> for one \<open>a\<close>, and \<^verbatim>\<open>fitTab\<close>: the outer loop over \<open>a\<close>.
  The lobe that \<^verbatim>\<open>fitTab\<close> declares before the loops (its constructor is in LTC.h) is the
  lobe of the initial state.\<close>

definition fitRow :: "Env \<Rightarrow> Brdf \<Rightarrow> int \<Rightarrow> int \<Rightarrow> FitState \<Rightarrow> FitState option" where
  "fitRow env brdf N a s = loop_down (fitCell env brdf N a) 0 (N - 1) s"

definition fitTab :: "Env \<Rightarrow> Brdf \<Rightarrow> int \<Rightarrow> FitState \<Rightarrow> FitState option" where
  "fitTab env brdf N s = loop_down (fitRow env brdf N) 0 (N - 1) s"

section \<open>Table packing\<close>

type_synonym vec2 = "real \<times> real"
type_synonym vec4 = "real \<times> real \<times> real \<times> real"

text \<open>The body of the loop of \<^verbatim>\<open>packTab\<close>: what it stores in \<^verbatim>\<open>tex1[i]\<close> and
  \<^verbatim>\<open>tex2[i]\<close>.\<close>

definition packCell :: "mat3 \<Rightarrow> vec2 \<Rightarrow> vec4 \<times> vec2" where
  "packCell m amp =
     (let a = mat_at m I0 I0;
          b = mat_at m I0 I2;
          c = mat_at m I1 I1;
          d = mat_at m I2 I0;
          e = mat_at m I2 I2;
          t0 = c * e;
          t1 = - b * c;
          t2 = a * e - b * d;
          t3 = - c * d;
          t4 = a * c
      in ((t0, t1, t2, t3), (t4, fst amp)))"

definition packTab ::
  "(int \<Rightarrow> mat3) \<Rightarrow> (int \<Rightarrow> vec2) \<Rightarrow> int \<Rightarrow> (int \<Rightarrow> vec4) \<times> (int \<Rightarrow> vec2) \<Rightarrow> (int \<Rightarrow> vec4) \<times> (int \<Rightarrow> vec2)" where
  "packTab tab tabAmplitude N tex =
     fold (\<lambda>i (tex1, tex2).
        let (p1, p2) = packCell (tab i) (tabAmplitude i)
        in (tex1(i := p1), tex2(i := p2))) [0..N * N - 1] tex"

section \<open>Matrix algebra\<close>

text \<open>The product of two matrices as \<^verbatim>\<open>glm\<close> computes it on its column-major
  storage: component \<open>r\<close> of column \<open>c\<close> of \<open>A * B\<close> is the sum over \<open>k\<close> of
  \<open>A[k][r] * B[c][k]\<close>.\<close>

definition mat_mul :: "mat3 \<Rightarrow> mat3 \<Rightarrow> mat3" where
  "mat_mul A B =
     (let column = (\<lambda>c. (\<Sum>k\<leftarrow>[I0, I1, I2]. mat_at A k I0 * mat_at B c k,
                         \<Sum>k\<leftarrow>[I0, I1, I2]. mat_at A k I1 * mat_at B c k,
                         \<Sum>k\<leftarrow>[I0, I1, I2]. mat_at A k I2 * mat_at B c k))
      in (column I0, column I1, column I2))"

text \<open>The determinant and the adjugate of a matrix, on its entries \<open>m[i][j]\<close>, and the
  matrix that the comment in \<^verbatim>\<open>packTab\<close> lays out from the five packed terms.\<close>

definition det3 :: "mat3 \<Rightarrow> real" where
  "det3 m =
     mat_at m I0 I0 * (mat_at m I1 I1 * mat_at m I2 I2 - mat_at m I1 I2 * mat_at m I2 I1)
   - mat_at m I0 I1 * (mat_at m I1 I0 * mat_at m I2 I2 - mat_at m I1 I2 * mat_at m I2 I0)
   + mat_at m I0 I2 * (mat_at m I1 I0 * mat_at m I2 I1 - mat_at m I1 I1 * mat_at m I2 I0)"

definition adjugate :: "mat3 \<Rightarrow> mat3" where
  "adjugate m =
     ((mat_at m I1 I1 * mat_at m I2 I2 - mat_at m I1 I2 * mat_at m I2 I1,
       mat_at m I0 I2 * mat_at m I2 I1 - mat_at m I0 I1 * mat_at m I2 I2,
       mat_at m I0 I1 * mat_at m I1 I2 - mat_at m I0 I2 * mat_at m I1 I1),
      (mat_at m I1 I2 * mat_at m I2 I0 - mat_at m I1 I0 * mat_at m I2 I2,
       mat_at m I0 I0 * mat_at m I2 I2 - mat_at m I0 I2 * mat_at m I2 I0,
       mat_at m I0 I2 * mat_at m I1 I0 - mat_at m I0 I0 * mat_at m I1 I2),
      (mat_at m I1 I0 * mat_at m I2 I1 - mat_at m I1 I1 * mat_at m I2 I0,
       mat_at m I0 I1 * mat_at m I2 I0 - mat_at m I0 I0 * mat_at m I2 I1,
       mat_at m I0 I0 * mat_at m I1 I1 - mat_at m I0 I1 * mat_at m I1 I0))"

definition scaled_identity :: "real \<Rightarrow> mat3" where
  "scaled_identity k = ((k, 0, 0), (0, k, 0), (0, 0, k))"

definition unpackInverse :: "vec4 \<times> vec2 \<Rightarrow> mat3" where
  "unpackInverse p =
     (case p of ((t0, t1, t2, t3), (t4, amp)) \<Rightarrow> ((t0, 0, t1), (0, t2, 0), (t3, 0, t4)))"

definition sparse :: "mat3 \<Rightarrow> bool" where
  "sparse m \<longleftrightarrow> mat_at m I0 I1 = 0 \<and> mat_at m I1 I0 = 0 \<and> mat_at m I2 I1 = 0 \<and> mat_at m I1 I2 = 0"

section \<open>The contributions of the samples, as the specification describes them\<close>

text \<open>The direction that the reflectance model draws for the stratified pair \<open>(i, j)\<close>, and
  the weight of that sample in the norm and average-direction estimators: reflectance over
  density where the density is strictly positive, zero otherwise.\<close>

definition sampleDir :: "Brdf \<Rightarrow> vec3 \<Rightarrow> real \<Rightarrow> nat \<Rightarrow> nat \<Rightarrow> vec3" where
  "sampleDir brdf V alpha i j = brdf_sample brdf V alpha (stratum i) (stratum j)"

definition weight :: "Brdf \<Rightarrow> vec3 \<Rightarrow> real \<Rightarrow> nat \<Rightarrow> nat \<Rightarrow> real" where
  "weight brdf V alpha i j =
     (case brdf_eval brdf V (sampleDir brdf V alpha i j) alpha of
        (eval, pdf) \<Rightarrow> if 0 < pdf then eval / pdf else 0)"

text \<open>The direction that the lobe draws for the stratified pair \<open>(i, j)\<close>; the two densities
  at a direction; the contribution of a direction to the error, as the specification
  describes it: the cube of the absolute difference between the model's reflectance and the
  lobe's value, over the sum of the two densities; and the directions the error estimator
  visits.\<close>

definition ltcDir :: "Env \<Rightarrow> LTC \<Rightarrow> nat \<Rightarrow> nat \<Rightarrow> vec3" where
  "ltcDir env ltc i j = ltc_sample env ltc (stratum i) (stratum j)"

definition pdf_ltc :: "Env \<Rightarrow> LTC \<Rightarrow> vec3 \<Rightarrow> real" where
  "pdf_ltc env ltc L = ltc_eval env ltc L / amplitude ltc"

definition pdf_brdf :: "Brdf \<Rightarrow> vec3 \<Rightarrow> real \<Rightarrow> vec3 \<Rightarrow> real" where
  "pdf_brdf brdf V alpha L = snd (brdf_eval brdf V L alpha)"

definition contribution :: "Env \<Rightarrow> LTC \<Rightarrow> Brdf \<Rightarrow> vec3 \<Rightarrow> real \<Rightarrow> vec3 \<Rightarrow> real" where
  "contribution env ltc brdf V alpha L =
     \<bar>fst (brdf_eval brdf V L alpha) - ltc_eval env ltc L\<bar> ^ 3
       / (pdf_ltc env ltc L + pdf_brdf brdf V alpha L)"

definition sampledDirs :: "Env \<Rightarrow> LTC \<Rightarrow> Brdf \<Rightarrow> vec3 \<Rightarrow> real \<Rightarrow> vec3 set" where
  "sampledDirs env ltc brdf V alpha =
     (\<Union>j \<in> {..<Nsample}. \<Union>i \<in> {..<Nsample}. {ltcDir env ltc i j, sampleDir brdf V alpha i j})"

text \<open>The arithmetic mean of the \<open>2 * Nsample * Nsample\<close> contributions.\<close>

definition meanContribution :: "Env \<Rightarrow> LTC \<Rightarrow> Brdf \<Rightarrow> vec3 \<Rightarrow> real \<Rightarrow> real" where
  "meanContribution env ltc brdf V alpha =
     (\<Sum>j<Nsample. \<Sum>i<Nsample.
         contribution env ltc brdf V alpha (ltcDir env ltc i j)
       + contribution env ltc brdf V alpha (sampleDir brdf V alpha i j))
       / real (2 * Nsample * Nsample)"

section \<open>Relations between states of the driver\<close>

text \<open>Two states of the driver agree before the cell \<open>(a, t)\<close> when they hold the same
  table entries for the cells already fitted (those of a rougher bucket, and those of the
  bucket \<open>a\<close> with a larger \<open>t\<close>) and, inside a row, the same lobe.\<close>

definition agree :: "int \<Rightarrow> int \<Rightarrow> int \<Rightarrow> FitState \<Rightarrow> FitState \<Rightarrow> bool" where
  "agree N a t s1 s2 \<longleftrightarrow>
     (t < N - 1 \<longrightarrow> st_ltc s1 = st_ltc s2)
     \<and> (\<forall>a' t'. 0 \<le> a' \<and> a' < N \<and> 0 \<le> t' \<and> t' < N \<and> (a < a' \<or> (a' = a \<and> t < t')) \<longrightarrow>
           st_tab s1 (a' + t' * N) = st_tab s2 (a' + t' * N)
         \<and> st_tabAmplitude s1 (a' + t' * N) = st_tabAmplitude s2 (a' + t' * N))"

text \<open>What the warm start of the edge column takes from \<^verbatim>\<open>LTC::update\<close>: with the frame
  at the identity, the entries \<open>[0][0]\<close> and \<open>[1][1]\<close> of the matrix are the two scale
  factors.\<close>

definition scales_on_diagonal :: "Env \<Rightarrow> bool" where
  "scales_on_diagonal env \<longleftrightarrow>
     (\<forall>p q r. mat_at (ltc_matrix env p q r (1, 0, 0) (0, 1, 0) (0, 0, 1)) I0 I0 = p
           \<and> mat_at (ltc_matrix env p q r (1, 0, 0) (0, 1, 0) (0, 0, 1)) I1 I1 = q)"

text \<open>The entry of the edge column for the roughness index \<open>a\<close> holds scale factors at or
  above the floor.\<close>

definition edge_stored :: "int \<Rightarrow> int \<Rightarrow> FitState \<Rightarrow> bool" where
  "edge_stored N a s \<longleftrightarrow>
     MIN_ALPHA \<le> mat_at (st_tab s (a + (N - 1) * N)) I0 I0
     \<and> MIN_ALPHA \<le> mat_at (st_tab s (a + (N - 1) * N)) I1 I1"

section \<open>Concrete instances\<close>

text \<open>A matrix for \<open>ltc_matrix\<close>: the frame, as the matrix of its three columns, times
  the matrix of the three free scalars. It serves as the concrete instance in the examples.\<close>

definition frameMatrix :: "real \<Rightarrow> real \<Rightarrow> real \<Rightarrow> vec3 \<Rightarrow> vec3 \<Rightarrow> vec3 \<Rightarrow> mat3" where
  "frameMatrix a b c x y z = mat_mul (x, y, z) ((a, 0, 0), (0, b, 0), (c, 0, 1))"

text \<open>A concrete reflectance model, environment and state, on which the statements below
  are instantiated.\<close>

definition example_brdf :: Brdf where
  "example_brdf = \<lparr>brdf_sample = (\<lambda>V alpha U1 U2. (0, 0, 1)), brdf_eval = (\<lambda>V L alpha. (1, 1))\<rparr>"

definition example_env :: Env where
  "example_env = \<lparr>NelderMead = (\<lambda>f start epsilon tol n. start),
                   ltc_sample = (\<lambda>ltc U1 U2. (0, 0, 1)),
                   ltc_eval = (\<lambda>ltc L. 0),
                   ltc_matrix = frameMatrix\<rparr>"

definition example_state :: FitState where
  "example_state = \<lparr>st_tab = (\<lambda>i. ((0, 0, 0), (0, 0, 0), (0, 0, 0))),
                     st_tabAmplitude = (\<lambda>i. (0, 0)),
                     st_ltc = \<lparr>amplitude = 1, m11 = 1, m22 = 1, m13 = 0,
                               X = (1, 0, 0), Y = (0, 1, 0), Z = (0, 0, 1),
                               M = ((1, 0, 0), (0, 1, 0), (0, 0, 1))\<rparr>\<rparr>"

text \<open>A reflectance model whose density is zero everywhere.\<close>

definition example_brdf_zero :: Brdf where
  "example_brdf_zero =
     \<lparr>brdf_sample = (\<lambda>V alpha U1 U2. (0, 0, 1)), brdf_eval = (\<lambda>V L alpha. (1, 0))\<rparr>"

text \<open>A second initial state, with other content in the arrays and another lobe.\<close>

definition example_state' :: FitState where
  "example_state' = \<lparr>st_tab = (\<lambda>i. ((1, 2, 3), (4, 5, 6), (7, 8, 9))),
                      st_tabAmplitude = (\<lambda>i. (3, 4)),
                      st_ltc = \<lparr>amplitude = 2, m11 = 3, m22 = 4, m13 = 5,
                                X = (0, 1, 0), Y = (0, 0, 1), Z = (1, 0, 0),
                                M = ((1, 2, 3), (4, 5, 6), (7, 8, 9))\<rparr>\<rparr>"

section \<open>Sums computed by the loops\<close>

lemma fold_add_sum:
  "fold (\<lambda>i (acc::real). acc + f i) xs a = a + sum_list (map f xs)"
  by (induction xs arbitrary: a) simp_all

lemma fold2_add_sum:
  "fold (\<lambda>j. fold (\<lambda>i (acc::real). acc + f i j) xs) ys a
     = a + (\<Sum>j\<leftarrow>ys. \<Sum>i\<leftarrow>xs. f i j)"
  by (induction ys arbitrary: a) (simp_all add: fold_add_sum)

lemma fold_vadd_sum:
  "fold (\<lambda>i acc. vadd acc (g i)) xs (x, y, z)
     = (x + (\<Sum>i\<leftarrow>xs. vec_at (g i) I0), y + (\<Sum>i\<leftarrow>xs. vec_at (g i) I1),
        z + (\<Sum>i\<leftarrow>xs. vec_at (g i) I2))"
proof (induction xs arbitrary: x y z)
  case Nil
  show ?case by simp
next
  case (Cons i xs)
  obtain u v w where g: "g i = (u, v, w)" by (cases "g i")
  show ?case by (simp add: g Cons.IH add.assoc)
qed

lemma fold2_vadd_sum:
  "fold (\<lambda>j. fold (\<lambda>i acc. vadd acc (g i j)) xs) ys (x, y, z)
     = (x + (\<Sum>j\<leftarrow>ys. \<Sum>i\<leftarrow>xs. vec_at (g i j) I0),
        y + (\<Sum>j\<leftarrow>ys. \<Sum>i\<leftarrow>xs. vec_at (g i j) I1),
        z + (\<Sum>j\<leftarrow>ys. \<Sum>i\<leftarrow>xs. vec_at (g i j) I2))"
  by (induction ys arbitrary: x y z) (simp_all add: fold_vadd_sum add.assoc)

lemma sum_list_upt: "(\<Sum>i\<leftarrow>[0..<n]. (f i :: real)) = (\<Sum>i<n. f i)"
  by (simp add: interv_sum_list_conv_sum_set_nat atLeast0LessThan)

lemma vec_at_smul: "vec_at (smul k v) c = k * vec_at v c"
  by (cases v; cases c) simp_all

lemma oadd_simps [simp]:
  "oadd None y = None"
  "oadd x None = None"
  "oadd (Some u) (Some v) = Some (u + v)"
  by (simp_all add: oadd_def split: option.splits)

lemma ovadd_simps [simp]:
  "ovadd None y = None"
  "ovadd x None = None"
  "ovadd (Some u) (Some v) = Some (vadd u v)"
  by (simp_all add: ovadd_def split: option.splits)

lemma fold_oadd_Some:
  "fold (\<lambda>i acc. oadd acc (Some (f i))) xs (Some a) = Some (fold (\<lambda>i acc. acc + f i) xs a)"
  by (induction xs arbitrary: a) simp_all

lemma fold2_oadd_Some:
  "fold (\<lambda>j. fold (\<lambda>i acc. oadd acc (Some (f i j))) xs) ys (Some a)
     = Some (fold (\<lambda>j. fold (\<lambda>i acc. acc + f i j) xs) ys a)"
  by (induction ys arbitrary: a) (simp_all add: fold_oadd_Some)

lemma fold_ovadd_Some:
  "fold (\<lambda>i acc. ovadd acc (Some (g i))) xs (Some a) = Some (fold (\<lambda>i acc. vadd acc (g i)) xs a)"
  by (induction xs arbitrary: a) simp_all

lemma fold2_ovadd_Some:
  "fold (\<lambda>j. fold (\<lambda>i acc. ovadd acc (Some (g i j))) xs) ys (Some a)
     = Some (fold (\<lambda>j. fold (\<lambda>i acc. vadd acc (g i j)) xs) ys a)"
  by (induction ys arbitrary: a) (simp_all add: fold_ovadd_Some)

text \<open>Behind the test the division has a value.\<close>

lemma guarded_division:
  "(if pdf > 0 then fdiv eval pdf else Some 0) = Some (if 0 < pdf then eval / pdf else 0)"
  by (simp add: fdiv_def)

lemma guarded_direction:
  "(if pdf > 0 then map_option (\<lambda>w. smul w L) (fdiv eval pdf) else Some (0, 0, 0))
     = Some (smul (if 0 < pdf then eval / pdf else 0) L)"
  by (cases L) (simp add: fdiv_def)

lemma computeNorm_sum:
  "computeNorm brdf V alpha =
     Some ((\<Sum>j<Nsample. \<Sum>i<Nsample. weight brdf V alpha i j) / real (Nsample * Nsample))"
proof -
  have "computeNorm brdf V alpha =
     map_option (\<lambda>norm. norm / real (Nsample * Nsample))
       (fold (\<lambda>j. fold (\<lambda>i acc. oadd acc (Some (weight brdf V alpha i j))) [0..<Nsample])
          [0..<Nsample] (Some 0))"
    by (simp add: computeNorm_def weight_def sampleDir_def Let_def case_prod_unfold
        guarded_division)
  then show ?thesis
    by (simp add: fold2_oadd_Some fold2_add_sum sum_list_upt)
qed

lemma computeAverageDir_sum:
  "computeAverageDir brdf V alpha =
     normalize (\<Sum>j<Nsample. \<Sum>i<Nsample.
                   weight brdf V alpha i j * vec_at (sampleDir brdf V alpha i j) I0,
                0,
                \<Sum>j<Nsample. \<Sum>i<Nsample.
                   weight brdf V alpha i j * vec_at (sampleDir brdf V alpha i j) I2)"
proof -
  let ?g = "\<lambda>i j. smul (weight brdf V alpha i j) (sampleDir brdf V alpha i j)"
  have "computeAverageDir brdf V alpha =
     (case fold (\<lambda>j. fold (\<lambda>i acc. ovadd acc (Some (?g i j))) [0..<Nsample])
             [0..<Nsample] (Some (0, 0, 0)) of
        None \<Rightarrow> None
      | Some averageDir \<Rightarrow> normalize (vec_set averageDir I1 0))"
    by (simp add: computeAverageDir_def weight_def sampleDir_def Let_def case_prod_unfold
        guarded_direction cong: option.case_cong)
  then show ?thesis
    by (simp add: fold2_ovadd_Some fold2_vadd_sum sum_list_upt vec_at_smul)
qed

section \<open>The guarded estimators\<close>

text \<open>
  Claim C5. In \<open>computeNorm\<close> and \<open>computeAverageDir\<close> a sample whose density is not
  strictly positive adds exactly zero to the accumulator and no division is performed for
  it, and a sample with a strictly positive density adds reflectance over density (times the
  sampled direction in the average-direction estimator, whose second component is then
  cleared and whose result is normalized). The divisions of the two loops are therefore all
  by a non-zero density: \<open>computeNorm\<close> always has a value, the accumulated sum divided by
  \<open>Nsample * Nsample\<close>, and \<open>computeAverageDir\<close> has the value of the normalization of
  its accumulated sum.
\<close>

theorem estimators_guard_density:
  "computeNorm brdf V alpha
     = Some ((\<Sum>j<Nsample. \<Sum>i<Nsample. weight brdf V alpha i j) / real (Nsample * Nsample))
   \<and> computeAverageDir brdf V alpha
     = normalize (\<Sum>j<Nsample. \<Sum>i<Nsample.
                     weight brdf V alpha i j * vec_at (sampleDir brdf V alpha i j) I0,
                  0,
                  \<Sum>j<Nsample. \<Sum>i<Nsample.
                     weight brdf V alpha i j * vec_at (sampleDir brdf V alpha i j) I2)
   \<and> (\<forall>i j. weight brdf V alpha i j
         = (case brdf_eval brdf V (brdf_sample brdf V alpha (stratum i) (stratum j)) alpha of
              (eval, pdf) \<Rightarrow> if 0 < pdf then eval / pdf else 0))"
  using computeNorm_sum [of brdf V alpha] computeAverageDir_sum [of brdf V alpha]
  by (simp add: weight_def sampleDir_def)

text \<open>At a reflectance model whose density is zero everywhere no division is performed:
  the norm is 0, and it is the normalization of the zero vector that has no value.\<close>

theorem estimators_guard_density_witness:
  "computeNorm example_brdf_zero (0, 0, 1) 1 = Some 0
   \<and> computeAverageDir example_brdf_zero (0, 0, 1) 1 = None
   \<and> computeNorm example_brdf (0, 0, 1) 1 = Some 1"
proof -
  have z: "weight example_brdf_zero (0, 0, 1) 1 i j = 0" for i j
    using estimators_guard_density [of example_brdf_zero "(0, 0, 1)" 1]
    by (simp add: example_brdf_zero_def)
  have w: "weight example_brdf (0, 0, 1) 1 i j = 1" for i j
    using estimators_guard_density [of example_brdf "(0, 0, 1)" 1]
    by (simp add: example_brdf_def)
  show ?thesis
    using estimators_guard_density [of example_brdf_zero "(0, 0, 1)" 1]
      estimators_guard_density [of example_brdf "(0, 0, 1)" 1]
    by (simp add: z w normalize_def fdiv_def Nsample_def)
qed

section \<open>Updates of the lobe\<close>

lemma LTC_update_fields [simp]:
  "amplitude (LTC_update env l) = amplitude l"
  "m11 (LTC_update env l) = m11 l"
  "m22 (LTC_update env l) = m22 l"
  "m13 (LTC_update env l) = m13 l"
  "X (LTC_update env l) = X l"
  "Y (LTC_update env l) = Y l"
  "Z (LTC_update env l) = Z l"
  "M (LTC_update env l) = ltc_matrix env (m11 l) (m22 l) (m13 l) (X l) (Y l) (Z l)"
  by (simp_all add: LTC_update_def)

lemma FitLTC_update_scalars:
  "m11 (FitLTC_update env fitter (p0, p1, p2) l) = max p0 MIN_ALPHA"
  "m22 (FitLTC_update env fitter (p0, p1, p2) l)
     = (if f_isotropic fitter then max p0 MIN_ALPHA else max p1 MIN_ALPHA)"
  "m13 (FitLTC_update env fitter (p0, p1, p2) l) = (if f_isotropic fitter then 0 else p2)"
  by (simp_all add: FitLTC_update_def Let_def)

lemma FitLTC_update_frame [simp]:
  "amplitude (FitLTC_update env fitter p l) = amplitude l"
  "X (FitLTC_update env fitter p l) = X l"
  "Y (FitLTC_update env fitter p l) = Y l"
  "Z (FitLTC_update env fitter p l) = Z l"
  by (cases p; simp add: FitLTC_update_def Let_def)+

lemma FitLTC_update_forgets:
  "FitLTC_update env fitter q (FitLTC_update env fitter p l) = FitLTC_update env fitter q l"
  by (cases p; cases q) (simp add: FitLTC_update_def LTC_update_def Let_def)

lemma FitLTC_call_forgets:
  "fst (FitLTC_call env fitter q (snd (FitLTC_call env fitter p l)))
     = fst (FitLTC_call env fitter q l)"
  by (simp add: FitLTC_call_def Let_def FitLTC_update_forgets)

lemma fit_is_update:
  "\<exists>p. fit env l brdf V alpha epsilon isot
         = FitLTC_update env \<lparr>f_brdf = brdf, f_isotropic = isot, f_V = V, f_alpha = alpha\<rparr> p l"
  unfolding fit_def Let_def by blast

lemma fit_isotropic:
  "m13 (fit env l brdf V alpha epsilon True) = 0"
  "m22 (fit env l brdf V alpha epsilon True) = m11 (fit env l brdf V alpha epsilon True)"
proof -
  obtain p where p: "fit env l brdf V alpha epsilon True
      = FitLTC_update env \<lparr>f_brdf = brdf, f_isotropic = True, f_V = V, f_alpha = alpha\<rparr> p l"
    using fit_is_update by blast
  obtain p0 p1 p2 where "p = (p0, p1, p2)" by (cases p)
  with p show "m13 (fit env l brdf V alpha epsilon True) = 0"
    and "m22 (fit env l brdf V alpha epsilon True) = m11 (fit env l brdf V alpha epsilon True)"
    by (simp_all add: FitLTC_update_scalars)
qed

lemma fit_floor:
  "MIN_ALPHA \<le> m11 (fit env l brdf V alpha epsilon isot)"
  "MIN_ALPHA \<le> m22 (fit env l brdf V alpha epsilon isot)"
proof -
  obtain p where p: "fit env l brdf V alpha epsilon isot
      = FitLTC_update env \<lparr>f_brdf = brdf, f_isotropic = isot, f_V = V, f_alpha = alpha\<rparr> p l"
    using fit_is_update by blast
  obtain p0 p1 p2 where "p = (p0, p1, p2)" by (cases p)
  with p show "MIN_ALPHA \<le> m11 (fit env l brdf V alpha epsilon isot)"
    and "MIN_ALPHA \<le> m22 (fit env l brdf V alpha epsilon isot)"
    by (simp_all add: FitLTC_update_scalars)
qed

lemma storeCell_ltc [simp]: "st_ltc (storeCell N a t l s) = l"
  by (simp add: storeCell_def Let_def)

lemma firstGuess_edge:
  "firstGuess env N a (N - 1) averageDir tab l =
     Some (LTC_update env
             (l\<lparr>X := (1, 0, 0), Y := (0, 1, 0), Z := (0, 0, 1),
                m11 := (if a = N - 1 then 1 else max (mat_at (tab (a + 1 + (N - 1) * N)) I0 I0) MIN_ALPHA),
                m22 := (if a = N - 1 then 1 else max (mat_at (tab (a + 1 + (N - 1) * N)) I1 I1) MIN_ALPHA),
                m13 := 0\<rparr>), True)"
  by (simp add: firstGuess_def Let_def)

lemma std_min_Some [simp]: "std_min (Some x) (Some y) = Some (min x y)"
  by (auto simp: std_min_def min_def)

lemma std_max_Some [simp]: "std_max (Some x) (Some y) = Some (max x y)"
  by (auto simp: std_max_def max_def)

lemma viewDir_eq:
  "N \<noteq> 1 \<Longrightarrow> viewDir N t =
     Some (sin (min 1.57 (arccos (real_of_int t / real_of_int (N - 1)))), 0,
           cos (min 1.57 (arccos (real_of_int t / real_of_int (N - 1)))))"
  by (simp add: viewDir_def fdiv_def Let_def)

lemma cellAlpha_eq:
  "N \<noteq> 1 \<Longrightarrow> cellAlpha N a = Some (max ((real_of_int a / real_of_int (N - 1))\<^sup>2) MIN_ALPHA)"
  by (simp add: cellAlpha_def fdiv_def Let_def power2_eq_square)

lemma viewDir_defined: "N \<noteq> 1 \<Longrightarrow> \<exists>V. viewDir N t = Some V"
  by (simp add: viewDir_eq)

lemma cellAlpha_defined: "N \<noteq> 1 \<Longrightarrow> \<exists>alpha. cellAlpha N a = Some alpha"
  by (simp add: cellAlpha_eq)

lemma computeNorm_defined: "\<exists>albedo. computeNorm brdf V alpha = Some albedo"
  by (simp add: computeNorm_sum)

lemma fitCell_edge:
  assumes "N \<noteq> 1"
  shows "\<exists>V alpha albedo l. viewDir N (N - 1) = Some V \<and> cellAlpha N a = Some alpha
           \<and> computeNorm brdf V alpha = Some albedo
           \<and> firstGuess env N a (N - 1) (computeAverageDir brdf V alpha) (st_tab s)
                ((st_ltc s)\<lparr>amplitude := albedo\<rparr>) = Some (l, True)
           \<and> fitCell env brdf N a (N - 1) s
                = Some (storeCell N a (N - 1) (fit env l brdf V alpha 0.05 True) s)"
proof -
  obtain V where V: "viewDir N (N - 1) = Some V" using viewDir_defined [OF assms] by blast
  obtain alpha where al: "cellAlpha N a = Some alpha" using cellAlpha_defined [OF assms] by blast
  obtain albedo where nm: "computeNorm brdf V alpha = Some albedo"
    using computeNorm_defined by blast
  show ?thesis
    by (simp add: fitCell_def V al nm firstGuess_edge Let_def)
qed

lemma fitCell_result:
  assumes "fitCell env brdf N a t s = Some s'"
  shows "\<exists>V alpha albedo l isot. viewDir N t = Some V \<and> cellAlpha N a = Some alpha
           \<and> computeNorm brdf V alpha = Some albedo
           \<and> firstGuess env N a t (computeAverageDir brdf V alpha) (st_tab s)
                ((st_ltc s)\<lparr>amplitude := albedo\<rparr>) = Some (l, isot)
           \<and> s' = storeCell N a t (fit env l brdf V alpha 0.05 isot) s"
  using assms by (auto simp: fitCell_def Let_def split: option.splits prod.splits)

section \<open>The isotropic column\<close>

text \<open>
  Claim C3. With the isotropic flag set, every \<open>FitLTC_update\<close> leaves the lobe with
  \<open>m13 = 0\<close> and \<open>m22 = m11\<close>; and for every roughness index \<open>a\<close> and every state in
  which the driver reaches the cell \<open>(a, N - 1)\<close>, the cell is fitted and the lobe it leaves
  has \<open>m13 = 0\<close> and \<open>m22 = m11\<close> exactly (for \<open>N = 1\<close> the roughness of the cell is
  not a number and the cell has no value in the model).
\<close>

theorem isotropic_column_exact:
  "m13 (FitLTC_update env (fitter\<lparr>f_isotropic := True\<rparr>) params ltc) = 0
   \<and> m22 (FitLTC_update env (fitter\<lparr>f_isotropic := True\<rparr>) params ltc)
       = m11 (FitLTC_update env (fitter\<lparr>f_isotropic := True\<rparr>) params ltc)
   \<and> (N \<noteq> 1 \<longrightarrow>
        (\<exists>s'. fitCell env brdf N a (N - 1) s = Some s'
           \<and> m13 (st_ltc s') = 0 \<and> m22 (st_ltc s') = m11 (st_ltc s')))"
proof -
  obtain p0 p1 p2 where p: "params = (p0, p1, p2)" by (cases params)
  have upd: "m13 (FitLTC_update env (fitter\<lparr>f_isotropic := True\<rparr>) params ltc) = 0
   \<and> m22 (FitLTC_update env (fitter\<lparr>f_isotropic := True\<rparr>) params ltc)
       = m11 (FitLTC_update env (fitter\<lparr>f_isotropic := True\<rparr>) params ltc)"
    by (simp add: p FitLTC_update_scalars)
  have cell: "\<exists>s'. fitCell env brdf N a (N - 1) s = Some s'
           \<and> m13 (st_ltc s') = 0 \<and> m22 (st_ltc s') = m11 (st_ltc s')" if "N \<noteq> 1"
  proof -
    from fitCell_edge [OF that, where a = a and env = env and brdf = brdf and s = s]
    show ?thesis
      by (auto simp: fit_isotropic)
  qed
  from upd cell show ?thesis by blast
qed

theorem isotropic_column_exact_witness:
  "(2::int) \<noteq> 1 \<and> (\<exists>s'. fitCell example_env example_brdf 2 0 (2 - 1) example_state = Some s'
           \<and> m13 (st_ltc s') = 0 \<and> m22 (st_ltc s') = m11 (st_ltc s'))"
  using isotropic_column_exact [of example_env "\<lparr>f_brdf = example_brdf, f_isotropic = False, f_V = (0, 0, 1), f_alpha = 1\<rparr>" "(0,0,0)" "st_ltc example_state" 2 example_brdf 0 example_state]
  by simp

section \<open>The counting-down loop\<close>

lemma loop_down_done [simp]: "i < lo \<Longrightarrow> loop_down body lo i s = Some s"
  by (simp add: loop_down.simps)

lemma loop_down_step:
  "lo \<le> i \<Longrightarrow> loop_down body lo i s
     = (case body i s of None \<Rightarrow> None | Some s' \<Rightarrow> loop_down body lo (i - 1) s')"
  by (subst loop_down.simps) simp

lemma loop_down_split:
  "lo \<le> k \<Longrightarrow> k \<le> i + 1 \<Longrightarrow>
     loop_down body lo i s
       = (case loop_down body k i s of None \<Rightarrow> None | Some s' \<Rightarrow> loop_down body lo (k - 1) s')"
proof (induction body k i s rule: loop_down.induct)
  case (1 body k i s)
  show ?case
  proof (cases "k \<le> i")
    case True
    with 1 show ?thesis
      by (simp add: loop_down_step [of k i] loop_down_step [of lo i] split: option.splits)
  next
    case False
    with 1 have "i = k - 1" by simp
    then show ?thesis by simp
  qed
qed

lemma loop_down_invariant:
  assumes "loop_down body lo i s = Some s'"
    and "P i s"
    and "\<And>k u u'. lo \<le> k \<Longrightarrow> k \<le> i \<Longrightarrow> P k u \<Longrightarrow> body k u = Some u' \<Longrightarrow> P (k - 1) u'"
    and "lo \<le> i + 1"
  shows "P (lo - 1) s'"
  using assms
proof (induction body lo i s rule: loop_down.induct)
  case (1 body lo i s)
  show ?case
  proof (cases "lo \<le> i")
    case True
    then obtain u where u: "body i s = Some u" and rest: "loop_down body lo (i - 1) u = Some s'"
      using "1.prems"(1) by (auto simp: loop_down_step split: option.splits)
    have "P (i - 1) u" using "1.prems"(3) [OF True _ "1.prems"(2) u] by simp
    with 1 True u rest show ?thesis by auto
  next
    case False
    with "1.prems" have "i = lo - 1" "s' = s" by auto
    with "1.prems"(2) show ?thesis by simp
  qed
qed

section \<open>The floor on the scale factors\<close>

lemma MIN_ALPHA_le_one: "MIN_ALPHA \<le> 1"
  by (simp add: MIN_ALPHA_def)

lemma fitCell_floor:
  assumes "fitCell env brdf N a t s = Some s'"
  shows "MIN_ALPHA \<le> m11 (st_ltc s')" and "MIN_ALPHA \<le> m22 (st_ltc s')"
  using fitCell_result [OF assms] by (auto simp: fit_floor)

lemma firstGuess_interior:
  assumes "t \<noteq> N - 1" and "firstGuess env N a t averageDir tab l = Some (l', isot)"
  shows "\<exists>L. averageDir = Some L \<and> \<not> isot
           \<and> l' = LTC_update env (l\<lparr>X := (vec_at L I2, 0, - vec_at L I0), Y := (0, 1, 0), Z := L\<rparr>)"
  using assms by (auto simp: firstGuess_def Let_def split: option.splits)

text \<open>
  Claim C4. The floor \<open>MIN_ALPHA\<close> is 0.0001, and \<open>m11\<close> and \<open>m22\<close> are at least
  \<open>MIN_ALPHA\<close> after every \<open>FitLTC_update\<close> (whatever the parameters the optimizer
  passes), after the final update of every \<open>fit\<close>, after the seeding of an edge-column cell
  (from the constant 1 or from the stored table entry), and in the lobe every fitted cell
  leaves; the first guess of an interior cell does not touch the two scalars.
\<close>

theorem scale_floor:
  "MIN_ALPHA = 0.0001
   \<and> MIN_ALPHA \<le> m11 (FitLTC_update env fitter params ltc)
   \<and> MIN_ALPHA \<le> m22 (FitLTC_update env fitter params ltc)
   \<and> MIN_ALPHA \<le> m11 (fit env ltc brdf V alpha epsilon isot)
   \<and> MIN_ALPHA \<le> m22 (fit env ltc brdf V alpha epsilon isot)
   \<and> (\<exists>l. firstGuess env N a (N - 1) averageDir tab ltc = Some (l, True)
          \<and> MIN_ALPHA \<le> m11 l \<and> MIN_ALPHA \<le> m22 l)
   \<and> (\<forall>l isot'. t \<noteq> N - 1 \<longrightarrow> firstGuess env N a t averageDir tab ltc = Some (l, isot')
          \<longrightarrow> m11 l = m11 ltc \<and> m22 l = m22 ltc)
   \<and> (\<forall>s'. fitCell env brdf N a t s = Some s'
          \<longrightarrow> MIN_ALPHA \<le> m11 (st_ltc s') \<and> MIN_ALPHA \<le> m22 (st_ltc s'))"
proof -
  obtain p0 p1 p2 where p: "params = (p0, p1, p2)" by (cases params)
  have upd: "MIN_ALPHA \<le> m11 (FitLTC_update env fitter params ltc)
      \<and> MIN_ALPHA \<le> m22 (FitLTC_update env fitter params ltc)"
    by (simp add: p FitLTC_update_scalars)
  have seed: "\<exists>l. firstGuess env N a (N - 1) averageDir tab ltc = Some (l, True)
          \<and> MIN_ALPHA \<le> m11 l \<and> MIN_ALPHA \<le> m22 l"
    using MIN_ALPHA_le_one by (simp add: firstGuess_edge)
  have keep: "m11 l = m11 ltc \<and> m22 l = m22 ltc"
    if "t \<noteq> N - 1" "firstGuess env N a t averageDir tab ltc = Some (l, isot')" for l isot'
    using firstGuess_interior [OF that] by auto
  show ?thesis
    using upd seed keep fit_floor [of env ltc brdf V alpha epsilon isot]
      fitCell_floor [of env brdf N a t s]
    by (auto simp: MIN_ALPHA_def)
qed

theorem scale_floor_witness:
  "(0::int) \<noteq> 2 - 1
   \<and> (\<exists>l isot'. firstGuess example_env 2 0 0 (Some (0, 0, 1)) (st_tab example_state)
                   (st_ltc example_state) = Some (l, isot')
         \<and> m11 l = m11 (st_ltc example_state) \<and> m22 l = m22 (st_ltc example_state))
   \<and> (\<exists>s'. fitCell example_env example_brdf 2 0 1 example_state = Some s'
         \<and> MIN_ALPHA \<le> m11 (st_ltc s') \<and> MIN_ALPHA \<le> m22 (st_ltc s'))"
proof -
  have g: "\<exists>l isot'. firstGuess example_env 2 0 0 (Some (0, 0, 1)) (st_tab example_state)
                   (st_ltc example_state) = Some (l, isot')"
    by (auto simp: firstGuess_def Let_def)
  have c: "\<exists>s'. fitCell example_env example_brdf 2 0 1 example_state = Some s'"
    using fitCell_edge [where N = 2 and a = 0 and env = example_env and brdf = example_brdf
        and s = example_state] by auto
  from g c show ?thesis
    using scale_floor [where env = example_env and N = 2 and a = 0 and t = 0
        and averageDir = "Some (0, 0, 1)" and tab = "st_tab example_state"
        and ltc = "st_ltc example_state"]
      scale_floor [where env = example_env and brdf = example_brdf and N = 2 and a = 0 and t = 1
        and s = example_state]
    by force
qed

section \<open>Packing\<close>

lemma adjugate_mul:
  "mat_mul (adjugate m) m = scaled_identity (det3 m)"
  "mat_mul m (adjugate m) = scaled_identity (det3 m)"
proof -
  obtain a b c d e f g h i where m: "m = ((a, b, c), (d, e, f), (g, h, i))"
    by (metis prod_cases3)
  show "mat_mul (adjugate m) m = scaled_identity (det3 m)"
    by (simp add: m mat_mul_def adjugate_def det3_def scaled_identity_def mat_at_def Let_def
        algebra_simps)
  show "mat_mul m (adjugate m) = scaled_identity (det3 m)"
    by (simp add: m mat_mul_def adjugate_def det3_def scaled_identity_def mat_at_def Let_def
        algebra_simps)
qed

lemma unpack_adjugate:
  assumes "sparse m"
  shows "unpackInverse (packCell m amp) = adjugate m"
proof -
  obtain a b c d e f g h i where m: "m = ((a, b, c), (d, e, f), (g, h, i))"
    by (metis prod_cases3)
  from assms show ?thesis
    by (simp add: m sparse_def unpackInverse_def packCell_def adjugate_def mat_at_def Let_def)
qed

lemma mat_at_set:
  "mat_at (mat_set m i j v) i' j' = (if i' = i \<and> j' = j then v else mat_at m i' j')"
proof -
  obtain a b c d e f g h k where m: "m = ((a, b, c), (d, e, f), (g, h, k))"
    by (metis prod_cases3)
  show ?thesis
    by (cases i; cases j; cases i'; cases j') (simp_all add: m mat_at_def mat_set_def)
qed

lemma storeCell_tab:
  "st_tab (storeCell N a t l s) =
     (st_tab s)(a + t * N :=
        mat_set (mat_set (mat_set (mat_set (M l) I0 I1 0) I1 I0 0) I2 I1 0) I1 I2 0)"
  by (simp add: storeCell_def Let_def)

lemma storeCell_amp:
  "st_tabAmplitude (storeCell N a t l s) = (st_tabAmplitude s)(a + t * N := (amplitude l, 0))"
  by (simp add: storeCell_def Let_def)

lemma storeCell_entries:
  "mat_at (st_tab (storeCell N a t l s) (a + t * N)) i j =
     (if (i, j) \<in> {(I0, I1), (I1, I0), (I2, I1), (I1, I2)} then 0 else mat_at (M l) i j)"
  by (cases i; cases j) (simp_all add: storeCell_tab mat_at_set)

lemma storeCell_sparse: "sparse (st_tab (storeCell N a t l s) (a + t * N))"
  by (simp add: storeCell_tab sparse_def mat_at_set)

lemma packTab_fold:
  "distinct xs \<Longrightarrow>
   fold (\<lambda>i (tex1, tex2).
        let (p1, p2) = packCell (tab i) (amp i)
        in (tex1(i := p1), tex2(i := p2))) xs (tex1, tex2)
   = (\<lambda>i. if i \<in> set xs then fst (packCell (tab i) (amp i)) else tex1 i,
      \<lambda>i. if i \<in> set xs then snd (packCell (tab i) (amp i)) else tex2 i)"
proof (induction xs arbitrary: tex1 tex2)
  case Nil
  show ?case by simp
next
  case (Cons x xs)
  then show ?case
    by (auto simp: case_prod_unfold Let_def fun_eq_iff)
qed

lemma packTab_at:
  "packTab tab amp N (tex1, tex2) =
     (\<lambda>i. if 0 \<le> i \<and> i < N * N then fst (packCell (tab i) (amp i)) else tex1 i,
      \<lambda>i. if 0 \<le> i \<and> i < N * N then snd (packCell (tab i) (amp i)) else tex2 i)"
  unfolding packTab_def by (subst packTab_fold) (auto simp: fun_eq_iff)

text \<open>
  Claim C7. For a matrix \<open>m\<close> whose entries \<open>[0][1]\<close>, \<open>[1][0]\<close>, \<open>[2][1]\<close> and
  \<open>[1][2]\<close> are zero, the five terms that \<open>packTab\<close> emits (\<open>c*e\<close>, \<open>-b*c\<close>,
  \<open>a*e - b*d\<close>, \<open>-c*d\<close>, \<open>a*c\<close>), laid out in the sparsity pattern of \<open>m\<close>, are the
  adjugate of \<open>m\<close>, whose product with \<open>m\<close> on either side is \<open>det m\<close> times the
  identity; the second component of \<open>tex2[i]\<close> is the stored amplitude; \<open>packTab\<close> stores
  these terms for every index below \<open>N * N\<close>; and the cell that \<open>fitTab\<close> stores has the
  four zero entries and, in its five other entries, the matrix of the fitted lobe.
\<close>

theorem packTab_rescaled_inverse:
  "(sparse m \<longrightarrow>
      unpackInverse (packCell m amp) = adjugate m
      \<and> mat_mul (unpackInverse (packCell m amp)) m = scaled_identity (det3 m)
      \<and> mat_mul m (unpackInverse (packCell m amp)) = scaled_identity (det3 m))
   \<and> packCell m amp =
        ((mat_at m I1 I1 * mat_at m I2 I2, - mat_at m I0 I2 * mat_at m I1 I1,
          mat_at m I0 I0 * mat_at m I2 I2 - mat_at m I0 I2 * mat_at m I2 I0,
          - mat_at m I1 I1 * mat_at m I2 I0),
         (mat_at m I0 I0 * mat_at m I1 I1, fst amp))
   \<and> (0 \<le> i \<and> i < N * N \<longrightarrow>
        fst (packTab tab tabAmplitude N tex) i = fst (packCell (tab i) (tabAmplitude i))
      \<and> snd (packTab tab tabAmplitude N tex) i = snd (packCell (tab i) (tabAmplitude i)))
   \<and> sparse (st_tab (storeCell N a t l s) (a + t * N))
   \<and> (\<forall>j k. mat_at (st_tab (storeCell N a t l s) (a + t * N)) j k =
         (if (j, k) \<in> {(I0, I1), (I1, I0), (I2, I1), (I1, I2)} then 0 else mat_at (M l) j k))"
proof -
  have inv: "sparse m \<longrightarrow>
      unpackInverse (packCell m amp) = adjugate m
      \<and> mat_mul (unpackInverse (packCell m amp)) m = scaled_identity (det3 m)
      \<and> mat_mul m (unpackInverse (packCell m amp)) = scaled_identity (det3 m)"
    using unpack_adjugate [of m amp] adjugate_mul [of m] by simp
  have "packTab tab tabAmplitude N tex = packTab tab tabAmplitude N (fst tex, snd tex)" by simp
  then have loop: "0 \<le> i \<and> i < N * N \<longrightarrow>
        fst (packTab tab tabAmplitude N tex) i = fst (packCell (tab i) (tabAmplitude i))
      \<and> snd (packTab tab tabAmplitude N tex) i = snd (packCell (tab i) (tabAmplitude i))"
    by (simp only: packTab_at) simp
  have terms: "packCell m amp =
        ((mat_at m I1 I1 * mat_at m I2 I2, - mat_at m I0 I2 * mat_at m I1 I1,
          mat_at m I0 I0 * mat_at m I2 I2 - mat_at m I0 I2 * mat_at m I2 I0,
          - mat_at m I1 I1 * mat_at m I2 I0),
         (mat_at m I0 I0 * mat_at m I1 I1, fst amp))"
    by (simp add: packCell_def Let_def)
  have stored: "\<forall>j k. mat_at (st_tab (storeCell N a t l s) (a + t * N)) j k =
         (if (j, k) \<in> {(I0, I1), (I1, I0), (I2, I1), (I1, I2)} then 0 else mat_at (M l) j k)"
    by (simp only: storeCell_entries) simp
  from inv terms loop storeCell_sparse [of N a t l s] stored show ?thesis
    by blast
qed

theorem packTab_rescaled_inverse_witness:
  "sparse ((2, 0, 3), (0, 5, 0), (7, 0, 11))
   \<and> mat_mul (unpackInverse (packCell ((2, 0, 3), (0, 5, 0), (7, 0, 11)) (1, 0)))
        ((2, 0, 3), (0, 5, 0), (7, 0, 11)) = scaled_identity 5
   \<and> (0::int) \<le> 3 \<and> (3::int) < 2 * 2
   \<and> snd (packTab (\<lambda>i. ((2, 0, 3), (0, 5, 0), (7, 0, 11))) (\<lambda>i. (1, 0)) 2
             (\<lambda>i. (0, 0, 0, 0), \<lambda>i. (0, 0))) 3 = (10, 1)"
proof -
  let ?m = "((2, 0, 3), (0, 5, 0), (7, 0, 11)) :: mat3"
  note T = packTab_rescaled_inverse [where m = ?m
        and amp = "(1, 0)" and i = 3 and N = 2
        and tab = "\<lambda>i. ?m" and tabAmplitude = "\<lambda>i. (1, 0)"
        and tex = "(\<lambda>i. (0, 0, 0, 0), \<lambda>i. (0, 0))"
        and a = 0 and t = 0 and l = "st_ltc example_state" and s = example_state]
  have s: "sparse ?m"
    by (simp add: sparse_def mat_at_def)
  have d: "det3 ?m = 5"
    by (simp add: det3_def mat_at_def)
  have r: "(0::int) \<le> 3 \<and> (3::int) < 2 * 2" by simp
  have "mat_mul (unpackInverse (packCell ?m (1, 0))) ?m = scaled_identity (det3 ?m)"
    using T s by blast
  moreover have "snd (packTab (\<lambda>i. ?m) (\<lambda>i. (1, 0)) 2 (\<lambda>i. (0, 0, 0, 0), \<lambda>i. (0, 0))) 3
      = snd (packCell ?m (1, 0))"
    using T r by blast
  moreover have "snd (packCell ?m (1, 0)) = (10, 1)"
    by (simp add: packCell_def mat_at_def)
  ultimately show ?thesis using s d r by simp
qed

section \<open>The error estimator as a sum\<close>

lemma misError_eq:
  "misError env ltc brdf V alpha L =
     (if amplitude ltc = 0 \<or> pdf_ltc env ltc L + pdf_brdf brdf V alpha L = 0 then None
      else Some (contribution env ltc brdf V alpha L))"
  by (simp add: misError_def fdiv_def pdf_ltc_def pdf_brdf_def contribution_def Let_def
      case_prod_unfold power3_eq_cube)

lemma fold_oadd:
  "fold (\<lambda>i acc. oadd (oadd acc (f i)) (g i)) xs acc =
     (if acc = None \<or> (\<exists>i\<in>set xs. f i = None \<or> g i = None) then None
      else Some (the acc + (\<Sum>i\<leftarrow>xs. the (f i) + the (g i))))"
proof (induction xs arbitrary: acc)
  case Nil
  show ?case by auto
next
  case (Cons x xs)
  show ?case
    by (cases acc; cases "f x"; cases "g x") (auto simp: Cons.IH add.assoc)
qed

lemma fold2_oadd:
  "fold (\<lambda>j. fold (\<lambda>i acc. oadd (oadd acc (f i j)) (g i j)) xs) ys acc =
     (if acc = None \<or> (\<exists>j\<in>set ys. \<exists>i\<in>set xs. f i j = None \<or> g i j = None) then None
      else Some (the acc + (\<Sum>j\<leftarrow>ys. \<Sum>i\<leftarrow>xs. the (f i j) + the (g i j))))"
proof (induction ys arbitrary: acc)
  case Nil
  show ?case by auto
next
  case (Cons y ys)
  show ?case
    unfolding fold_simps comp_apply Cons.IH
    by (auto simp: fold_oadd add.assoc)
qed

lemma computeError_fold:
  "computeError env ltc brdf V alpha =
     map_option (\<lambda>e. e / real (Nsample * Nsample))
       (fold (\<lambda>j. fold (\<lambda>i acc.
           oadd (oadd acc (misError env ltc brdf V alpha (ltcDir env ltc i j)))
             (misError env ltc brdf V alpha (sampleDir brdf V alpha i j)))
          [0..<Nsample]) [0..<Nsample] (Some 0))"
  by (simp add: computeError_def Let_def ltcDir_def sampleDir_def)

lemma computeError_defined:
  "(\<exists>r. computeError env ltc brdf V alpha = Some r) \<longleftrightarrow>
     (\<forall>L \<in> sampledDirs env ltc brdf V alpha. misError env ltc brdf V alpha L \<noteq> None)"
  by (simp add: computeError_fold fold2_oadd sampledDirs_def atLeast0LessThan)

lemma computeError_value:
  assumes "\<forall>L \<in> sampledDirs env ltc brdf V alpha. misError env ltc brdf V alpha L \<noteq> None"
  shows "computeError env ltc brdf V alpha =
     Some ((\<Sum>j<Nsample. \<Sum>i<Nsample.
         contribution env ltc brdf V alpha (ltcDir env ltc i j)
       + contribution env ltc brdf V alpha (sampleDir brdf V alpha i j))
       / real (Nsample * Nsample))"
proof -
  have d: "misError env ltc brdf V alpha (ltcDir env ltc i j) \<noteq> None
      \<and> misError env ltc brdf V alpha (sampleDir brdf V alpha i j) \<noteq> None"
    if "i < Nsample" "j < Nsample" for i j
    using assms that by (auto simp: sampledDirs_def)
  have v: "the (misError env ltc brdf V alpha L) = contribution env ltc brdf V alpha L"
    if "misError env ltc brdf V alpha L \<noteq> None" for L
    using that by (simp add: misError_eq split: if_splits)
  have "(\<Sum>j\<leftarrow>[0..<Nsample]. \<Sum>i\<leftarrow>[0..<Nsample].
           the (misError env ltc brdf V alpha (ltcDir env ltc i j))
         + the (misError env ltc brdf V alpha (sampleDir brdf V alpha i j)))
      = (\<Sum>j<Nsample. \<Sum>i<Nsample.
         contribution env ltc brdf V alpha (ltcDir env ltc i j)
       + contribution env ltc brdf V alpha (sampleDir brdf V alpha i j))"
    unfolding sum_list_upt
    by (intro sum.cong refl) (simp add: v d)
  moreover have "\<not> (\<exists>j\<in>set [0..<Nsample]. \<exists>i\<in>set [0..<Nsample].
        misError env ltc brdf V alpha (ltcDir env ltc i j) = None
      \<or> misError env ltc brdf V alpha (sampleDir brdf V alpha i j) = None)"
    using d by auto
  ultimately show ?thesis
    by (simp add: computeError_fold fold2_oadd del: set_upt)
qed

lemma sampledDirs_first: "ltcDir env ltc 0 0 \<in> sampledDirs env ltc brdf V alpha"
proof -
  have "(0::nat) < Nsample" by (simp add: Nsample_def)
  then show ?thesis unfolding sampledDirs_def by blast
qed

lemma computeError_defined_iff:
  "(\<exists>r. computeError env ltc brdf V alpha = Some r) \<longleftrightarrow>
     amplitude ltc \<noteq> 0
     \<and> (\<forall>L \<in> sampledDirs env ltc brdf V alpha.
           pdf_ltc env ltc L + pdf_brdf brdf V alpha L \<noteq> 0)"
  using sampledDirs_first [of env ltc brdf V alpha]
  by (auto simp: computeError_defined misError_eq)

lemma example_contribution:
  "contribution example_env (st_ltc example_state) example_brdf V alpha L = 1"
  by (simp add: contribution_def pdf_ltc_def pdf_brdf_def example_env_def example_brdf_def
      example_state_def)

lemma example_misError:
  "misError example_env (st_ltc example_state) example_brdf V alpha L = Some 1"
  by (simp add: misError_eq example_contribution)
    (simp add: pdf_ltc_def pdf_brdf_def example_env_def example_brdf_def example_state_def)

text \<open>
  Claim C2, as stated, at a concrete input. The reflectance model has reflectance 1 and
  density 1 everywhere, the lobe evaluates to 0 and has amplitude 1: each of the
  \<open>2 * Nsample * Nsample\<close> contributions is 1, so their mean is 1, and \<open>computeError\<close>
  returns 2.
\<close>

theorem computeError_mean_counterexample:
  "computeError example_env (st_ltc example_state) example_brdf (0, 0, 1) 1 = Some 2
   \<and> meanContribution example_env (st_ltc example_state) example_brdf (0, 0, 1) 1 = 1"
proof -
  have "computeError example_env (st_ltc example_state) example_brdf (0, 0, 1) 1 = Some 2"
    by (subst computeError_value) (simp_all add: example_misError example_contribution Nsample_def)
  moreover have "meanContribution example_env (st_ltc example_state) example_brdf (0, 0, 1) 1 = 1"
    by (simp add: meanContribution_def example_contribution Nsample_def)
  ultimately show ?thesis by simp
qed

text \<open>
  Claim C2, amended. For each of the \<open>Nsample * Nsample\<close> stratified pairs
  \<open>computeError\<close> draws one direction from the lobe and one from the reflectance model; the
  contribution of a direction is the cube of the absolute difference between the model's
  reflectance and the lobe's value, divided by the sum of the lobe's density (its value over
  its amplitude) and the model's density. Where every one of these divisions has a non-zero
  divisor, the value returned is the sum of all contributions, of both strategies and all
  pairs, divided by \<open>Nsample * Nsample\<close>, the number of pairs: twice the mean of the
  contributions.
\<close>

theorem computeError_normalised_sum:
  assumes "amplitude ltc \<noteq> 0"
    and "\<forall>L \<in> sampledDirs env ltc brdf V alpha.
           ltc_eval env ltc L / amplitude ltc + snd (brdf_eval brdf V L alpha) \<noteq> 0"
  shows "computeError env ltc brdf V alpha =
     Some ((\<Sum>j<Nsample. \<Sum>i<Nsample.
         contribution env ltc brdf V alpha (ltc_sample env ltc (stratum i) (stratum j))
       + contribution env ltc brdf V alpha (brdf_sample brdf V alpha (stratum i) (stratum j)))
       / real (Nsample * Nsample))
   \<and> computeError env ltc brdf V alpha = Some (2 * meanContribution env ltc brdf V alpha)
   \<and> (\<forall>L. contribution env ltc brdf V alpha L =
         \<bar>fst (brdf_eval brdf V L alpha) - ltc_eval env ltc L\<bar> ^ 3
           / (ltc_eval env ltc L / amplitude ltc + snd (brdf_eval brdf V L alpha)))"
proof -
  have "\<forall>L \<in> sampledDirs env ltc brdf V alpha. misError env ltc brdf V alpha L \<noteq> None"
    using assms by (simp add: misError_eq pdf_ltc_def pdf_brdf_def)
  from computeError_value [OF this] show ?thesis
    by (simp add: meanContribution_def ltcDir_def sampleDir_def contribution_def pdf_ltc_def
        pdf_brdf_def Nsample_def)
qed

theorem computeError_normalised_sum_witness:
  "amplitude (st_ltc example_state) \<noteq> 0
   \<and> ltc_eval example_env (st_ltc example_state) (0, 0, 1) / amplitude (st_ltc example_state)
       + snd (brdf_eval example_brdf (0, 0, 1) (0, 0, 1) 1) \<noteq> 0
   \<and> computeError example_env (st_ltc example_state) example_brdf (0, 0, 1) 1
       = Some (2 * meanContribution example_env (st_ltc example_state) example_brdf (0, 0, 1) 1)"
proof -
  have a: "amplitude (st_ltc example_state) \<noteq> 0"
    by (simp add: example_state_def)
  have d: "ltc_eval example_env (st_ltc example_state) L / amplitude (st_ltc example_state)
       + snd (brdf_eval example_brdf (0, 0, 1) L 1) \<noteq> 0" for L
    by (simp add: example_state_def example_env_def example_brdf_def)
  then have "\<forall>L \<in> sampledDirs example_env (st_ltc example_state) example_brdf (0, 0, 1) 1.
      ltc_eval example_env (st_ltc example_state) L / amplitude (st_ltc example_state)
       + snd (brdf_eval example_brdf (0, 0, 1) L 1) \<noteq> 0"
    by blast
  from computeError_normalised_sum [OF a this] a d [of "(0, 0, 1)"] show ?thesis
    by blast
qed

text \<open>
  Claim C10. \<open>computeError\<close> divides by \<open>pdf_ltc + pdf_brdf\<close> without a guard, for the
  direction drawn from the lobe and for the direction drawn from the model of every
  stratified pair: it has a value exactly when the amplitude is not zero and the sum of the
  two densities is not zero at every sampled direction. Where the densities are not
  negative, a value therefore requires that at every sampled direction at least one of the
  two densities is strictly positive.
\<close>

theorem computeError_unguarded_division:
  "((\<exists>r. computeError env ltc brdf V alpha = Some r) \<longleftrightarrow>
       amplitude ltc \<noteq> 0
       \<and> (\<forall>L \<in> sampledDirs env ltc brdf V alpha.
             pdf_ltc env ltc L + pdf_brdf brdf V alpha L \<noteq> 0))
   \<and> ((\<forall>L \<in> sampledDirs env ltc brdf V alpha.
          0 \<le> pdf_ltc env ltc L \<and> 0 \<le> pdf_brdf brdf V alpha L)
        \<longrightarrow> (\<exists>r. computeError env ltc brdf V alpha = Some r)
        \<longrightarrow> (\<forall>L \<in> sampledDirs env ltc brdf V alpha.
               0 < pdf_ltc env ltc L \<or> 0 < pdf_brdf brdf V alpha L))
   \<and> (\<forall>i<Nsample. \<forall>j<Nsample.
         ltc_sample env ltc (stratum i) (stratum j) \<in> sampledDirs env ltc brdf V alpha
       \<and> brdf_sample brdf V alpha (stratum i) (stratum j) \<in> sampledDirs env ltc brdf V alpha)"
proof -
  have pos: "\<forall>L \<in> sampledDirs env ltc brdf V alpha.
               0 < pdf_ltc env ltc L \<or> 0 < pdf_brdf brdf V alpha L"
    if nonneg: "\<forall>L \<in> sampledDirs env ltc brdf V alpha.
          0 \<le> pdf_ltc env ltc L \<and> 0 \<le> pdf_brdf brdf V alpha L"
      and def: "\<exists>r. computeError env ltc brdf V alpha = Some r"
  proof
    fix L assume L: "L \<in> sampledDirs env ltc brdf V alpha"
    with def have "pdf_ltc env ltc L + pdf_brdf brdf V alpha L \<noteq> 0"
      by (simp add: computeError_defined_iff)
    moreover from nonneg L have "0 \<le> pdf_ltc env ltc L" "0 \<le> pdf_brdf brdf V alpha L"
      by auto
    ultimately show "0 < pdf_ltc env ltc L \<or> 0 < pdf_brdf brdf V alpha L"
      by linarith
  qed
  have mem: "\<forall>i<Nsample. \<forall>j<Nsample.
         ltc_sample env ltc (stratum i) (stratum j) \<in> sampledDirs env ltc brdf V alpha
       \<and> brdf_sample brdf V alpha (stratum i) (stratum j) \<in> sampledDirs env ltc brdf V alpha"
    by (auto simp: sampledDirs_def ltcDir_def sampleDir_def)
  from pos mem computeError_defined_iff [of env ltc brdf V alpha] show ?thesis
    by blast
qed

theorem computeError_unguarded_division_witness:
  "(\<exists>r. computeError example_env (st_ltc example_state) example_brdf (0, 0, 1) 1 = Some r)
   \<and> 0 < pdf_brdf example_brdf (0, 0, 1) 1 (ltc_sample example_env (st_ltc example_state) (stratum 0) (stratum 0))
   \<and> computeError example_env (st_ltc example_state) example_brdf_zero (0, 0, 1) 1 = None"
proof -
  let ?l = "st_ltc example_state"
  note T = computeError_unguarded_division [where env = example_env and ltc = ?l
      and brdf = example_brdf and V = "(0, 0, 1)" and alpha = 1]
  note Z = computeError_unguarded_division [where env = example_env and ltc = ?l
      and brdf = example_brdf_zero and V = "(0, 0, 1)" and alpha = 1]
  have a: "amplitude ?l \<noteq> 0" by (simp add: example_state_def)
  have p: "pdf_ltc example_env ?l L = 0" "pdf_brdf example_brdf (0, 0, 1) 1 L = 1"
    "pdf_brdf example_brdf_zero (0, 0, 1) 1 L = 0" for L
    by (simp_all add: pdf_ltc_def pdf_brdf_def example_env_def example_brdf_def
        example_brdf_zero_def)
  have def: "\<exists>r. computeError example_env ?l example_brdf (0, 0, 1) 1 = Some r"
    using T a by (simp add: p)
  have nonneg: "\<forall>L \<in> sampledDirs example_env ?l example_brdf (0, 0, 1) 1.
      0 \<le> pdf_ltc example_env ?l L \<and> 0 \<le> pdf_brdf example_brdf (0, 0, 1) 1 L"
    by (simp add: p)
  have "ltc_sample example_env ?l (stratum 0) (stratum 0)
      \<in> sampledDirs example_env ?l example_brdf (0, 0, 1) 1"
    using T by (simp add: Nsample_def)
  with T nonneg def
  have "0 < pdf_ltc example_env ?l (ltc_sample example_env ?l (stratum 0) (stratum 0))
      \<or> 0 < pdf_brdf example_brdf (0, 0, 1) 1 (ltc_sample example_env ?l (stratum 0) (stratum 0))"
    by blast
  then have pos: "0 < pdf_brdf example_brdf (0, 0, 1) 1
      (ltc_sample example_env ?l (stratum 0) (stratum 0))"
    by (simp add: p)
  have zmem: "ltc_sample example_env ?l (stratum 0) (stratum 0)
      \<in> sampledDirs example_env ?l example_brdf_zero (0, 0, 1) 1"
    using Z by (simp add: Nsample_def)
  have "\<not> (\<forall>L \<in> sampledDirs example_env ?l example_brdf_zero (0, 0, 1) 1.
      pdf_ltc example_env ?l L + pdf_brdf example_brdf_zero (0, 0, 1) 1 L \<noteq> 0)"
  proof
    assume "\<forall>L \<in> sampledDirs example_env ?l example_brdf_zero (0, 0, 1) 1.
      pdf_ltc example_env ?l L + pdf_brdf example_brdf_zero (0, 0, 1) 1 L \<noteq> 0"
    with zmem have "pdf_ltc example_env ?l (ltc_sample example_env ?l (stratum 0) (stratum 0))
      + pdf_brdf example_brdf_zero (0, 0, 1) 1
          (ltc_sample example_env ?l (stratum 0) (stratum 0)) \<noteq> 0"
      by blast
    then show False by (simp add: p)
  qed
  with Z have "\<not> (\<exists>r. computeError example_env ?l example_brdf_zero (0, 0, 1) 1 = Some r)"
    by blast
  then have "computeError example_env ?l example_brdf_zero (0, 0, 1) 1 = None"
    by simp
  with def pos show ?thesis by blast
qed

section \<open>The parameters of a cell\<close>

lemma sum_below_12:
  "(\<Sum>m<(12::nat). f m) = f 0 + f 1 + f 2 + f 3 + f 4 + f 5 + f 6 + f 7 + f 8 + f 9 + f 10 + (f 11 :: real)"
  by (simp add: eval_nat_numeral)

lemma cos_coeff_values:
  "cos_coeff 1 = 0" "cos_coeff 2 = - 1 / 2" "cos_coeff 3 = 0" "cos_coeff 4 = 1 / 24"
  "cos_coeff 5 = 0" "cos_coeff 6 = - 1 / 720" "cos_coeff 7 = 0" "cos_coeff 8 = 1 / 40320"
  "cos_coeff 9 = 0" "cos_coeff 10 = - 1 / 3628800" "cos_coeff 11 = 0"
  by (simp_all add: cos_coeff_def fact_numeral)

lemma cos_157_pos: "0 < cos (1.57::real)"
proof -
  obtain t where t: "cos (1.57::real)
      = (\<Sum>m<12. cos_coeff m * 1.57 ^ m) + (cos (t + 1/2 * real (12::nat) * pi) / fact 12) * 1.57 ^ 12"
    using Maclaurin_cos_expansion2 [of "1.57" 12] by auto
  have s: "(\<Sum>m<12. cos_coeff m * (1.57::real) ^ m)
      = 1 - 1.57^2 / 2 + 1.57^4 / 24 - 1.57^6 / 720 + 1.57^8 / 40320 - 1.57^10 / 3628800"
    unfolding sum_below_12 cos_coeff_values cos_coeff_0 by simp
  have "- 1 \<le> cos (t + 1/2 * real (12::nat) * pi)" by (rule cos_ge_minus_one)
  then have "- (1.57 ^ 12 / fact 12) \<le> (cos (t + 1/2 * real (12::nat) * pi) / fact 12) * (1.57::real) ^ 12"
    by (simp add: field_simps)
  moreover have "(0::real) < 1 - 1.57^2 / 2 + 1.57^4 / 24 - 1.57^6 / 720 + 1.57^8 / 40320
      - 1.57^10 / 3628800 - 1.57 ^ 12 / fact 12"
    by (simp add: fact_numeral power_divide)
  ultimately show ?thesis
    unfolding t s by linarith
qed

lemma grazing_below_half_pi: "(1.57::real) < pi / 2"
proof (rule ccontr)
  assume "\<not> (1.57::real) < pi / 2"
  then have "pi / 2 \<le> (1.57::real)" by simp
  moreover have "(1.57::real) \<le> 2" by simp
  then have "(1.57::real) \<le> pi" using pi_ge_two by linarith
  ultimately have "cos (1.57::real) \<le> cos (pi / 2)"
    by (intro cos_monotone_0_pi_le) simp_all
  with cos_157_pos show False by simp
qed

lemma fit_amplitude [simp]: "amplitude (fit env l brdf V alpha epsilon isot) = amplitude l"
  by (simp add: fit_def Let_def)

lemma firstGuess_amplitude:
  "firstGuess env N a t averageDir tab l = Some (l', isot) \<Longrightarrow> amplitude l' = amplitude l"
  by (auto simp: firstGuess_def Let_def split: if_splits option.splits)

lemma fitCell_amplitude:
  assumes "fitCell env brdf N a t s = Some s'"
    and "viewDir N t = Some V" and "cellAlpha N a = Some alpha"
  shows "computeNorm brdf V alpha = Some (amplitude (st_ltc s'))"
    and "computeNorm brdf V alpha = Some (fst (st_tabAmplitude s' (a + t * N)))"
    and "snd (st_tabAmplitude s' (a + t * N)) = 0"
  using fitCell_result [OF assms(1)] assms(2,3)
  by (auto simp: storeCell_amp dest: firstGuess_amplitude)

text \<open>
  Claim C6. For \<open>N \<ge> 2\<close> and every cell \<open>(a, t)\<close> the driver takes the view direction
  \<open>(sin \<theta>, 0, cos \<theta>)\<close> with \<open>\<theta> = min 1.57 (arccos (t / (N - 1)))\<close> and the roughness
  parameter \<open>max ((a / (N - 1))\<^sup>2) MIN_ALPHA\<close>: the angle stays at or below 1.57, which is
  below \<open>\<pi>/2\<close>, so that for \<open>0 \<le> t \<le> N - 1\<close> the third component of the view direction is
  positive; the roughness parameter is at least the positive floor; and these are the
  values at which the cell's estimators run (the amplitude stored for the cell is the norm
  estimate at them).
\<close>

theorem cell_parameters:
  assumes "2 \<le> N"
  shows "viewDir N t =
           Some (sin (min 1.57 (arccos (real_of_int t / real_of_int (N - 1)))), 0,
                 cos (min 1.57 (arccos (real_of_int t / real_of_int (N - 1)))))
   \<and> cellAlpha N a = Some (max ((real_of_int a / real_of_int (N - 1))\<^sup>2) MIN_ALPHA)
   \<and> min 1.57 (arccos (real_of_int t / real_of_int (N - 1))) \<le> 1.57
   \<and> (1.57::real) < pi / 2
   \<and> (0 \<le> t \<and> t \<le> N - 1 \<longrightarrow>
         0 \<le> min 1.57 (arccos (real_of_int t / real_of_int (N - 1)))
       \<and> 0 < cos (min 1.57 (arccos (real_of_int t / real_of_int (N - 1)))))
   \<and> MIN_ALPHA \<le> max ((real_of_int a / real_of_int (N - 1))\<^sup>2) MIN_ALPHA
   \<and> 0 < MIN_ALPHA
   \<and> (\<forall>s'. fitCell env brdf N a t s = Some s' \<longrightarrow>
         computeNorm brdf
           (sin (min 1.57 (arccos (real_of_int t / real_of_int (N - 1)))), 0,
            cos (min 1.57 (arccos (real_of_int t / real_of_int (N - 1)))))
           (max ((real_of_int a / real_of_int (N - 1))\<^sup>2) MIN_ALPHA)
           = Some (fst (st_tabAmplitude s' (a + t * N)))
       \<and> snd (st_tabAmplitude s' (a + t * N)) = 0)"
proof -
  let ?ct = "real_of_int t / real_of_int (N - 1)"
  let ?theta = "min 1.57 (arccos ?ct)"
  let ?alpha = "max ((real_of_int a / real_of_int (N - 1))\<^sup>2) MIN_ALPHA"
  from assms have n: "N \<noteq> 1" by simp
  have v: "viewDir N t = Some (sin ?theta, 0, cos ?theta)"
    using n by (rule viewDir_eq)
  have al: "cellAlpha N a = Some ?alpha"
    using n by (rule cellAlpha_eq)
  have range: "0 \<le> ?theta \<and> 0 < cos ?theta" if "0 \<le> t \<and> t \<le> N - 1"
  proof -
    from that assms have "0 \<le> ?ct" "?ct \<le> 1" by simp_all
    then have "0 \<le> arccos ?ct" by (intro arccos_lbound) simp_all
    then have lo: "0 \<le> ?theta" by simp
    have hi: "?theta < pi / 2" using grazing_below_half_pi by simp
    from lo have "- (pi / 2) < ?theta" using pi_half_gt_zero by linarith
    then have "0 < cos ?theta" using hi by (rule cos_gt_zero_pi)
    with lo show ?thesis by simp
  qed
  have drv: "computeNorm brdf (sin ?theta, 0, cos ?theta) ?alpha
        = Some (fst (st_tabAmplitude s' (a + t * N)))
      \<and> snd (st_tabAmplitude s' (a + t * N)) = 0"
    if "fitCell env brdf N a t s = Some s'" for s'
    using fitCell_amplitude(2,3) [OF that v al] by simp
  from v al range drv grazing_below_half_pi show ?thesis
    by (simp add: MIN_ALPHA_def)
qed

theorem cell_parameters_witness:
  "(2::int) \<le> 2 \<and> viewDir 2 1 = Some (0, 0, 1) \<and> cellAlpha 2 1 = Some 1
   \<and> 0 \<le> (1::int) \<and> (1::int) \<le> 2 - 1
   \<and> (\<exists>s'. fitCell example_env example_brdf 2 1 1 example_state = Some s'
         \<and> computeNorm example_brdf (0, 0, 1) 1 = Some (fst (st_tabAmplitude s' (1 + 1 * 2)))
         \<and> snd (st_tabAmplitude s' (1 + 1 * 2)) = 0)"
proof -
  have c: "\<exists>s'. fitCell example_env example_brdf 2 1 1 example_state = Some s'"
    using fitCell_edge [where N = 2 and a = 1 and env = example_env and brdf = example_brdf
        and s = example_state] by auto
  have m: "max (1::real) MIN_ALPHA = 1" by (simp add: MIN_ALPHA_def)
  from c show ?thesis
    using cell_parameters [where N = 2 and t = 1 and a = 1 and env = example_env
        and brdf = example_brdf and s = example_state]
    by (auto simp: m)
qed

section \<open>Two runs of the driver\<close>

lemma loop_down_rel:
  assumes "R i s1 s2"
    and "\<And>k u1 u2. lo \<le> k \<Longrightarrow> k \<le> i \<Longrightarrow> R k u1 u2
           \<Longrightarrow> rel_option (R (k - 1)) (body k u1) (body k u2)"
    and "lo \<le> i + 1"
  shows "rel_option (R (lo - 1)) (loop_down body lo i s1) (loop_down body lo i s2)"
  using assms
proof (induction body lo i s1 arbitrary: s2 rule: loop_down.induct)
  case (1 body lo i s1)
  show ?case
  proof (cases "lo \<le> i")
    case True
    have st: "rel_option (R (i - 1)) (body i s1) (body i s2)"
      using "1.prems"(2) [OF True _ "1.prems"(1)] by simp
    show ?thesis
    proof (cases "body i s1")
      case None
      with st have "body i s2 = None" by (cases "body i s2") simp_all
      with None True show ?thesis by (simp add: loop_down_step)
    next
      case (Some u1)
      with st obtain u2 where u2: "body i s2 = Some u2" and r: "R (i - 1) u1 u2"
        by (cases "body i s2") simp_all
      have "rel_option (R (lo - 1)) (loop_down body lo (i - 1) u1) (loop_down body lo (i - 1) u2)"
        using True Some r "1.prems"(2) by (intro "1.IH") auto
      with True Some u2 show ?thesis by (simp add: loop_down_step)
    qed
  next
    case False
    with "1.prems" have "i = lo - 1" by simp
    with "1.prems"(1) show ?thesis by simp
  qed
qed

lemma firstGuess_agree:
  assumes "agree N a t s1 s2" and "0 \<le> a" "a < N" "0 \<le> t" "t < N"
  shows "firstGuess env N a t averageDir (st_tab s1) ((st_ltc s1)\<lparr>amplitude := c\<rparr>)
       = firstGuess env N a t averageDir (st_tab s2) ((st_ltc s2)\<lparr>amplitude := c\<rparr>)"
proof (cases "t = N - 1")
  case True
  have tab: "st_tab s1 (a + 1 + (N - 1) * N) = st_tab s2 (a + 1 + (N - 1) * N)" if "a \<noteq> N - 1"
  proof -
    from that assms have "0 \<le> a + 1 \<and> a + 1 < N \<and> 0 \<le> N - 1 \<and> N - 1 < N \<and> a < a + 1" by simp
    with assms(1) show ?thesis unfolding agree_def by blast
  qed
  obtain a1 b1 c1 d1 x1 y1 z1 k1 where l1: "st_ltc s1 =
      \<lparr>amplitude = a1, m11 = b1, m22 = c1, m13 = d1, X = x1, Y = y1, Z = z1, M = k1\<rparr>"
    by (cases "st_ltc s1")
  obtain a2 b2 c2 d2 x2 y2 z2 k2 where l2: "st_ltc s2 =
      \<lparr>amplitude = a2, m11 = b2, m22 = c2, m13 = d2, X = x2, Y = y2, Z = z2, M = k2\<rparr>"
    by (cases "st_ltc s2")
  show ?thesis
    using tab by (simp add: True firstGuess_edge l1 l2 LTC_update_def)
next
  case False
  with assms have "st_ltc s1 = st_ltc s2" by (simp add: agree_def)
  with False show ?thesis by (simp add: firstGuess_def)
qed

lemma fitCell_agree:
  assumes "agree N a t s1 s2" and "0 \<le> a" "a < N" "0 \<le> t" "t < N"
  shows "rel_option (agree N a (t - 1)) (fitCell env brdf N a t s1) (fitCell env brdf N a t s2)"
proof -
  have store: "agree N a (t - 1) (storeCell N a t l s1) (storeCell N a t l s2)" for l
    using assms(1) unfolding agree_def
    by (auto simp: storeCell_tab storeCell_amp)
  show ?thesis
    unfolding fitCell_def Let_def firstGuess_agree [OF assms]
    by (auto split: option.splits simp: store)
qed

lemma agreeD:
  assumes "agree N a t s1 s2" and "0 \<le> a'" "a' < N" "0 \<le> t'" "t' < N"
    and "a < a' \<or> (a' = a \<and> t < t')"
  shows "st_tab s1 (a' + t' * N) = st_tab s2 (a' + t' * N)"
    and "st_tabAmplitude s1 (a' + t' * N) = st_tabAmplitude s2 (a' + t' * N)"
  using assms unfolding agree_def by blast+

lemma agree_next_row:
  assumes "agree N a (- 1) s1 s2"
  shows "agree N (a - 1) (N - 1) s1 s2"
proof -
  have "st_tab s1 (a' + t' * N) = st_tab s2 (a' + t' * N)
      \<and> st_tabAmplitude s1 (a' + t' * N) = st_tabAmplitude s2 (a' + t' * N)"
    if "0 \<le> a' \<and> a' < N \<and> 0 \<le> t' \<and> t' < N \<and> (a - 1 < a' \<or> (a' = a - 1 \<and> N - 1 < t'))"
    for a' t'
  proof -
    from that have "a < a' \<or> (a' = a \<and> - 1 < t')" by auto
    with that agreeD [OF assms, of a' t'] show ?thesis by simp
  qed
  then show ?thesis unfolding agree_def by blast
qed

lemma fitRow_agree:
  assumes "agree N a (N - 1) s1 s2" and "0 \<le> a" "a < N"
  shows "rel_option (agree N (a - 1) (N - 1)) (fitRow env brdf N a s1) (fitRow env brdf N a s2)"
proof -
  have "rel_option (agree N a (0 - 1)) (loop_down (fitCell env brdf N a) 0 (N - 1) s1)
          (loop_down (fitCell env brdf N a) 0 (N - 1) s2)"
    using assms by (intro loop_down_rel [where R = "agree N a"]) (auto intro: fitCell_agree)
  then show ?thesis
    unfolding fitRow_def
    by (rule option.rel_mono_strong) (simp add: agree_next_row)
qed

lemma fitTab_agree:
  assumes "0 \<le> N"
  shows "rel_option (agree N (- 1) (N - 1)) (fitTab env brdf N s1) (fitTab env brdf N s2)"
proof -
  have start: "agree N (N - 1) (N - 1) s1 s2"
    by (auto simp: agree_def)
  have "rel_option (agree N (0 - 1) (N - 1)) (loop_down (fitRow env brdf N) 0 (N - 1) s1)
          (loop_down (fitRow env brdf N) 0 (N - 1) s2)"
    using assms start
    by (intro loop_down_rel [where R = "\<lambda>a. agree N a (N - 1)"]) (auto intro: fitRow_agree)
  then show ?thesis by (simp add: fitTab_def)
qed

lemma cell_of_index:
  assumes "0 \<le> N" "0 \<le> i" "i < N * N"
  shows "\<exists>a t. 0 \<le> a \<and> a < N \<and> 0 \<le> t \<and> t < N \<and> i = a + t * (N::int)"
proof -
  have "N \<noteq> 0" using assms by auto
  with assms have n: "0 < N" by simp
  have "i div N < N"
  proof (rule ccontr)
    assume "\<not> i div N < N"
    then have "N * N \<le> N * (i div N)" using n by (simp add: mult_left_mono)
    moreover have "0 \<le> i mod N" using n by simp
    moreover have "N * (i div N) + i mod N = i" by simp
    ultimately show False using assms by linarith
  qed
  moreover have "0 \<le> i div N" using assms n by (simp add: pos_imp_zdiv_nonneg_iff)
  moreover have "0 \<le> i mod N" "i mod N < N" using n by simp_all
  moreover have "i = i mod N + (i div N) * N" by simp
  ultimately show ?thesis by blast
qed

text \<open>
  Claim C8. Two runs of \<open>fitTab\<close> with the same grid size, the same reflectance model and
  the same optimizer and lobe functions either both have no value or produce tables that are
  equal entry for entry, matrices and amplitudes, at every index below \<open>N * N\<close>, whatever
  the arrays and the lobe hold when each run starts: every value a run reads from the table
  or the lobe is one it has written before. The estimators take their sample points from the
  fixed centres \<open>(k + 0.5) / Nsample\<close>.
\<close>

theorem fitTab_deterministic:
  assumes "0 \<le> N"
  shows "(fitTab env brdf N s1 = None \<longleftrightarrow> fitTab env brdf N s2 = None)
   \<and> (\<forall>r1 r2 i. fitTab env brdf N s1 = Some r1 \<and> fitTab env brdf N s2 = Some r2
         \<and> 0 \<le> i \<and> i < N * N \<longrightarrow>
           st_tab r1 i = st_tab r2 i \<and> st_tabAmplitude r1 i = st_tabAmplitude r2 i)
   \<and> (\<forall>k. stratum k = (real k + 0.5) / real Nsample)"
proof -
  note rel = fitTab_agree [OF assms, of env brdf s1 s2]
  have none: "fitTab env brdf N s1 = None \<longleftrightarrow> fitTab env brdf N s2 = None"
    using rel by (cases "fitTab env brdf N s1"; cases "fitTab env brdf N s2") simp_all
  have eq: "st_tab r1 i = st_tab r2 i \<and> st_tabAmplitude r1 i = st_tabAmplitude r2 i"
    if run1: "fitTab env brdf N s1 = Some r1" and run2: "fitTab env brdf N s2 = Some r2"
      and lo: "0 \<le> i" and hi: "i < N * N"
    for r1 r2 i
  proof -
    from rel run1 run2 have ag: "agree N (- 1) (N - 1) r1 r2" by simp
    obtain a t where "0 \<le> a" "a < N" "0 \<le> t" "t < N" "i = a + t * N"
      using cell_of_index [OF assms lo hi] by blast
    with ag show ?thesis unfolding agree_def by auto
  qed
  from none eq show ?thesis by (simp add: stratum_def)
qed

lemma loop_down_total:
  assumes "\<And>k u. lo \<le> k \<Longrightarrow> k \<le> i \<Longrightarrow> \<exists>u'. body k u = Some u'"
  shows "\<exists>s'. loop_down body lo i s = Some s'"
  using assms
proof (induction body lo i s rule: loop_down.induct)
  case (1 body lo i s)
  show ?case
  proof (cases "lo \<le> i")
    case True
    then obtain u where u: "body i s = Some u" using "1.prems" by blast
    have "\<exists>s'. loop_down body lo (i - 1) u = Some s'"
      using True u "1.prems" by (intro "1.IH") auto
    with True u show ?thesis by (simp add: loop_down_step)
  next
    case False
    then show ?thesis by simp
  qed
qed

lemma example_weight: "weight example_brdf V alpha i j = 1"
  by (simp add: weight_def example_brdf_def)

lemma example_averageDir: "computeAverageDir example_brdf V alpha = Some (0, 0, 1)"
  unfolding computeAverageDir_sum example_weight
  by (simp add: sampleDir_def example_brdf_def normalize_def fdiv_def Nsample_def)

lemma example_fitCell_defined:
  assumes "N \<noteq> 1"
  shows "\<exists>s'. fitCell example_env example_brdf N a t s = Some s'"
proof -
  obtain V where V: "viewDir N t = Some V" using viewDir_defined [OF assms] by blast
  obtain alpha where al: "cellAlpha N a = Some alpha" using cellAlpha_defined [OF assms] by blast
  obtain albedo where nm: "computeNorm example_brdf V alpha = Some albedo"
    using computeNorm_defined by blast
  show ?thesis
    by (simp add: fitCell_def V al nm example_averageDir firstGuess_def Let_def)
qed

lemma example_fitTab_defined:
  assumes "N \<noteq> 1"
  shows "\<exists>s'. fitTab example_env example_brdf N s = Some s'"
  unfolding fitTab_def fitRow_def
  by (intro loop_down_total example_fitCell_defined assms)

theorem fitTab_deterministic_witness:
  "(0::int) \<le> 2
   \<and> (\<exists>r1 r2. fitTab example_env example_brdf 2 example_state = Some r1
         \<and> fitTab example_env example_brdf 2 example_state' = Some r2
         \<and> (0::int) \<le> 3 \<and> (3::int) < 2 * 2
         \<and> st_tab r1 3 = st_tab r2 3 \<and> st_tabAmplitude r1 3 = st_tabAmplitude r2 3)
   \<and> st_tab example_state 3 \<noteq> st_tab example_state' 3"
proof -
  obtain r1 where r1: "fitTab example_env example_brdf 2 example_state = Some r1"
    using example_fitTab_defined [of 2 example_state] by auto
  obtain r2 where r2: "fitTab example_env example_brdf 2 example_state' = Some r2"
    using example_fitTab_defined [of 2 "example_state'"] by auto
  have "st_tab r1 3 = st_tab r2 3 \<and> st_tabAmplitude r1 3 = st_tabAmplitude r2 3"
    using fitTab_deterministic [where N = 2 and env = example_env and brdf = example_brdf
        and ?s1.0 = example_state and ?s2.0 = "example_state'"] r1 r2
    by simp
  moreover have "st_tab example_state 3 \<noteq> st_tab example_state' 3"
    by (simp add: example_state_def example_state'_def)
  ultimately show ?thesis using r1 r2 by simp
qed

section \<open>The warm start\<close>

lemma example_scales_on_diagonal: "scales_on_diagonal example_env"
  by (simp add: scales_on_diagonal_def example_env_def frameMatrix_def mat_mul_def mat_at_def)

lemma loop_down_last:
  assumes "loop_down body lo i s = Some s'" and "lo \<le> i"
  shows "\<exists>u. body lo u = Some s'"
proof -
  have "lo - 1 < i \<longrightarrow> (\<exists>u. body (lo - 1 + 1) u = Some s')"
    using assms(1)
  proof (rule loop_down_invariant [where P = "\<lambda>k v. k < i \<longrightarrow> (\<exists>u. body (k + 1) u = Some v)"])
    show "i < i \<longrightarrow> (\<exists>u. body (i + 1) u = Some s)" by simp
    show "lo \<le> i + 1" using assms(2) by simp
  next
    fix k u u'
    assume "body k u = Some u'"
    then show "k - 1 < i \<longrightarrow> (\<exists>u. body (k - 1 + 1) u = Some u')" by auto
  qed
  with assms(2) show ?thesis by simp
qed

lemma storeCell_diagonal:
  "mat_at (st_tab (storeCell N a t l s) (a + t * N)) I0 I0 = mat_at (M l) I0 I0"
  "mat_at (st_tab (storeCell N a t l s) (a + t * N)) I1 I1 = mat_at (M l) I1 I1"
  by (simp_all add: storeCell_tab mat_at_set)

lemma storeCell_other:
  "i \<noteq> a + t * N \<Longrightarrow> st_tab (storeCell N a t l s) i = st_tab s i"
  by (simp add: storeCell_tab)

lemma fit_frame [simp]:
  "X (fit env l brdf V alpha epsilon isot) = X l"
  "Y (fit env l brdf V alpha epsilon isot) = Y l"
  "Z (fit env l brdf V alpha epsilon isot) = Z l"
  by (simp_all add: fit_def Let_def)

lemma FitLTC_update_matrix:
  "M (FitLTC_update env fitter p l) =
     ltc_matrix env (m11 (FitLTC_update env fitter p l)) (m22 (FitLTC_update env fitter p l))
       (m13 (FitLTC_update env fitter p l)) (X l) (Y l) (Z l)"
  by (cases p) (simp add: FitLTC_update_def Let_def)

lemma fit_matrix:
  "M (fit env l brdf V alpha epsilon isot) =
     ltc_matrix env (m11 (fit env l brdf V alpha epsilon isot))
       (m22 (fit env l brdf V alpha epsilon isot))
       (m13 (fit env l brdf V alpha epsilon isot)) (X l) (Y l) (Z l)"
  unfolding fit_def Let_def by (rule FitLTC_update_matrix)

lemma fitCell_edge_stored:
  assumes "scales_on_diagonal env" and "fitCell env brdf N a (N - 1) s = Some s'"
  shows "edge_stored N a s'"
proof -
  obtain V alpha albedo l isot where
    g: "firstGuess env N a (N - 1) (computeAverageDir brdf V alpha) (st_tab s)
          ((st_ltc s)\<lparr>amplitude := albedo\<rparr>) = Some (l, isot)"
    and s': "s' = storeCell N a (N - 1) (fit env l brdf V alpha 0.05 isot) s"
    using fitCell_result [OF assms(2)] by blast
  from g have frame: "X l = (1, 0, 0)" "Y l = (0, 1, 0)" "Z l = (0, 0, 1)"
    by (auto simp: firstGuess_edge)
  show ?thesis
    using assms(1) fit_floor [of env l brdf V alpha "0.05" isot]
    by (simp add: edge_stored_def s' storeCell_diagonal fit_matrix frame scales_on_diagonal_def)
qed

lemma fitCell_keeps_edge:
  assumes "fitCell env brdf N a t s = Some s'" and "t \<noteq> N - 1" and "N \<noteq> 0"
    and "edge_stored N a s"
  shows "edge_stored N a s'"
proof -
  obtain l where s': "s' = storeCell N a t l s"
    using fitCell_result [OF assms(1)] by blast
  from assms(2,3) have "a + (N - 1) * N \<noteq> a + t * N" by simp
  with assms(4) show ?thesis
    by (simp add: edge_stored_def s' storeCell_other)
qed

lemma fitRow_edge_stored:
  assumes "scales_on_diagonal env" and "fitRow env brdf N a s = Some s'" and "0 < N"
  shows "edge_stored N a s'"
proof -
  have "0 - 1 < N - 1 \<longrightarrow> edge_stored N a s'"
    using assms(2) [unfolded fitRow_def]
  proof (rule loop_down_invariant [where P = "\<lambda>t u. t < N - 1 \<longrightarrow> edge_stored N a u"])
    show "N - 1 < N - 1 \<longrightarrow> edge_stored N a s" by simp
    show "0 \<le> N - 1 + 1" using assms(3) by simp
  next
    fix t u u'
    assume c: "fitCell env brdf N a t u = Some u'" and p: "t < N - 1 \<longrightarrow> edge_stored N a u"
      and r: "t \<le> N - 1"
    show "t - 1 < N - 1 \<longrightarrow> edge_stored N a u'"
    proof (cases "t = N - 1")
      case True
      with c assms(1) show ?thesis by (simp add: fitCell_edge_stored)
    next
      case False
      with r p have "edge_stored N a u" by simp
      with c False assms(3) show ?thesis by (simp add: fitCell_keeps_edge)
    qed
  qed
  with assms(3) show ?thesis by simp
qed

lemma rows_edge_stored:
  assumes "scales_on_diagonal env" and "0 \<le> a" "a < N - 1"
    and "loop_down (fitRow env brdf N) (a + 1) (N - 1) s0 = Some s"
  shows "edge_stored N (a + 1) s"
proof -
  from assms(3) have "a + 1 \<le> N - 1" by simp
  from loop_down_last [OF assms(4) this] obtain u where "fitRow env brdf N (a + 1) u = Some s"
    by blast
  with assms show ?thesis by (intro fitRow_edge_stored [of env brdf N "a + 1" u]) simp_all
qed

lemma firstGuess_flag:
  "firstGuess env N a t averageDir tab l = Some (l', isot) \<Longrightarrow> isot = (t = N - 1)"
  by (auto simp: firstGuess_def Let_def split: if_splits option.splits)

lemma firstGuess_edge_fields:
  "\<exists>l. firstGuess env N a (N - 1) averageDir tab ltc = Some (l, True)
     \<and> X l = (1, 0, 0) \<and> Y l = (0, 1, 0) \<and> Z l = (0, 0, 1)
     \<and> m11 l = (if a = N - 1 then 1 else max (mat_at (tab (a + 1 + (N - 1) * N)) I0 I0) MIN_ALPHA)
     \<and> m22 l = (if a = N - 1 then 1 else max (mat_at (tab (a + 1 + (N - 1) * N)) I1 I1) MIN_ALPHA)
     \<and> m13 l = 0"
  by (simp add: firstGuess_edge)

lemma fitCell_lobe:
  assumes "fitCell env brdf N a t u = Some u'"
  shows "\<exists>V alpha albedo l. viewDir N t = Some V \<and> cellAlpha N a = Some alpha
           \<and> computeNorm brdf V alpha = Some albedo
           \<and> firstGuess env N a t (computeAverageDir brdf V alpha) (st_tab u)
                ((st_ltc u)\<lparr>amplitude := albedo\<rparr>) = Some (l, t = N - 1)
           \<and> st_ltc u' = fit env l brdf V alpha 0.05 (t = N - 1)
           \<and> u' = storeCell N a t (fit env l brdf V alpha 0.05 (t = N - 1)) u"
proof -
  obtain V alpha albedo l isot where r: "viewDir N t = Some V" "cellAlpha N a = Some alpha"
    "computeNorm brdf V alpha = Some albedo"
    "firstGuess env N a t (computeAverageDir brdf V alpha) (st_tab u)
        ((st_ltc u)\<lparr>amplitude := albedo\<rparr>) = Some (l, isot)"
    "u' = storeCell N a t (fit env l brdf V alpha 0.05 isot) u"
    using fitCell_result [OF assms] by blast
  from r(4) have "isot = (t = N - 1)" by (rule firstGuess_flag)
  with r show ?thesis by (intro exI [of _ V] exI [of _ alpha] exI [of _ albedo] exI [of _ l]) simp
qed

text \<open>
  Claim C1. Let \<^verbatim>\<open>LTC::update\<close> put the two scale factors on the entries \<open>[0][0]\<close> and
  \<open>[1][1]\<close> of the matrix when the frame is the identity. Then, in this order:
  for the cell \<open>(N - 1, N - 1)\<close> the first guess has the identity frame, both scale factors
  1 and skew 0, and the fit is isotropic;
  for a cell \<open>(a, N - 1)\<close> with \<open>0 \<le> a < N - 1\<close>, in the state \<open>s\<close> that the rows
  \<open>N - 1\<close> down to \<open>a + 1\<close> have left (from which \<open>fitTab\<close> goes on with row \<open>a\<close>), the
  first guess has the identity frame, skew 0 and as scale factors the entries \<open>[0][0]\<close> and
  \<open>[1][1]\<close> of \<open>tab[a+1+t*N]\<close> (the floor that the code applies to them changes nothing
  there), and the fit is isotropic;
  for a cell with \<open>t \<noteq> N - 1\<close> the first guess takes its frame from the average direction
  \<open>L\<close>, as \<open>(L.z, 0, -L.x)\<close>, \<open>(0, 1, 0)\<close>, \<open>L\<close>, keeps the three scalars of the
  incoming lobe, and the fit is not isotropic;
  every fitted cell takes that first guess on the incoming lobe with the amplitude set, fits
  it with the flag \<open>t = N - 1\<close>, and leaves the fitted lobe as the lobe of the state;
  and for a cell \<open>(a, t)\<close> with \<open>0 \<le> t < N - 1\<close>, the state that enters it is the one the
  cell \<open>(a, t + 1)\<close> has left, its lobe is the lobe that the fit of the cell \<open>(a, t + 1)\<close>
  returned, and the first guess of the cell \<open>(a, t)\<close> has the three scalars \<open>m11\<close>,
  \<open>m22\<close>, \<open>m13\<close> of that fitted lobe.
\<close>

theorem warm_start:
  assumes "scales_on_diagonal env"
  shows "(\<exists>l. firstGuess env N (N - 1) (N - 1) averageDir tab ltc = Some (l, True)
           \<and> X l = (1, 0, 0) \<and> Y l = (0, 1, 0) \<and> Z l = (0, 0, 1)
           \<and> m11 l = 1 \<and> m22 l = 1 \<and> m13 l = 0)
   \<and> (0 \<le> a \<and> a < N - 1 \<and> loop_down (fitRow env brdf N) (a + 1) (N - 1) s0 = Some s \<longrightarrow>
         fitTab env brdf N s0 = loop_down (fitRow env brdf N) 0 a s
       \<and> (\<exists>l. firstGuess env N a (N - 1) averageDir (st_tab s) ltc = Some (l, True)
             \<and> X l = (1, 0, 0) \<and> Y l = (0, 1, 0) \<and> Z l = (0, 0, 1)
             \<and> m11 l = mat_at (st_tab s (a + 1 + (N - 1) * N)) I0 I0
             \<and> m22 l = mat_at (st_tab s (a + 1 + (N - 1) * N)) I1 I1
             \<and> m13 l = 0))
   \<and> (\<forall>l isot. t \<noteq> N - 1 \<and> firstGuess env N a t averageDir tab ltc = Some (l, isot) \<longrightarrow>
         \<not> isot
       \<and> (\<exists>L. averageDir = Some L
             \<and> X l = (vec_at L I2, 0, - vec_at L I0) \<and> Y l = (0, 1, 0) \<and> Z l = L)
       \<and> m11 l = m11 ltc \<and> m22 l = m22 ltc \<and> m13 l = m13 ltc)
   \<and> (\<forall>u u'. fitCell env brdf N a t u = Some u' \<longrightarrow>
         (\<exists>V alpha albedo l. viewDir N t = Some V \<and> cellAlpha N a = Some alpha
            \<and> computeNorm brdf V alpha = Some albedo
            \<and> firstGuess env N a t (computeAverageDir brdf V alpha) (st_tab u)
                 ((st_ltc u)\<lparr>amplitude := albedo\<rparr>) = Some (l, t = N - 1)
            \<and> st_ltc u' = fit env l brdf V alpha 0.05 (t = N - 1)
            \<and> u' = storeCell N a t (fit env l brdf V alpha 0.05 (t = N - 1)) u))
   \<and> (\<forall>u u1 u2. 0 \<le> t \<and> t < N - 1
          \<and> loop_down (fitCell env brdf N a) (t + 1) (N - 1) u = Some u1
          \<and> fitCell env brdf N a t u1 = Some u2 \<longrightarrow>
         fitRow env brdf N a u = loop_down (fitCell env brdf N a) 0 (t - 1) u2
       \<and> (\<exists>u0 V' alpha' albedo' l'.
             fitCell env brdf N a (t + 1) u0 = Some u1
           \<and> viewDir N (t + 1) = Some V' \<and> cellAlpha N a = Some alpha'
           \<and> computeNorm brdf V' alpha' = Some albedo'
           \<and> firstGuess env N a (t + 1) (computeAverageDir brdf V' alpha') (st_tab u0)
                ((st_ltc u0)\<lparr>amplitude := albedo'\<rparr>) = Some (l', t + 1 = N - 1)
           \<and> st_ltc u1 = fit env l' brdf V' alpha' 0.05 (t + 1 = N - 1)
           \<and> (\<exists>V alpha albedo l.
                 viewDir N t = Some V \<and> cellAlpha N a = Some alpha
               \<and> computeNorm brdf V alpha = Some albedo
               \<and> firstGuess env N a t (computeAverageDir brdf V alpha) (st_tab u1)
                    ((st_ltc u1)\<lparr>amplitude := albedo\<rparr>) = Some (l, False)
               \<and> m11 l = m11 (fit env l' brdf V' alpha' 0.05 (t + 1 = N - 1))
               \<and> m22 l = m22 (fit env l' brdf V' alpha' 0.05 (t + 1 = N - 1))
               \<and> m13 l = m13 (fit env l' brdf V' alpha' 0.05 (t + 1 = N - 1))
               \<and> st_ltc u2 = fit env l brdf V alpha 0.05 False)))"
proof -
  have first: "\<exists>l. firstGuess env N (N - 1) (N - 1) averageDir tab ltc = Some (l, True)
           \<and> X l = (1, 0, 0) \<and> Y l = (0, 1, 0) \<and> Z l = (0, 0, 1)
           \<and> m11 l = 1 \<and> m22 l = 1 \<and> m13 l = 0"
    using firstGuess_edge_fields [of env N "N - 1" averageDir tab ltc] by simp
  have edge: "fitTab env brdf N s0 = loop_down (fitRow env brdf N) 0 a s
       \<and> (\<exists>l. firstGuess env N a (N - 1) averageDir (st_tab s) ltc = Some (l, True)
             \<and> X l = (1, 0, 0) \<and> Y l = (0, 1, 0) \<and> Z l = (0, 0, 1)
             \<and> m11 l = mat_at (st_tab s (a + 1 + (N - 1) * N)) I0 I0
             \<and> m22 l = mat_at (st_tab s (a + 1 + (N - 1) * N)) I1 I1
             \<and> m13 l = 0)"
    if lo: "0 \<le> a" and hi: "a < N - 1"
      and pre: "loop_down (fitRow env brdf N) (a + 1) (N - 1) s0 = Some s"
  proof -
    have "fitTab env brdf N s0 =
        (case loop_down (fitRow env brdf N) (a + 1) (N - 1) s0 of
           None \<Rightarrow> None | Some s' \<Rightarrow> loop_down (fitRow env brdf N) 0 (a + 1 - 1) s')"
      unfolding fitTab_def using lo hi by (intro loop_down_split) simp_all
    with pre have run: "fitTab env brdf N s0 = loop_down (fitRow env brdf N) 0 a s" by simp
    have "edge_stored N (a + 1) s"
      using rows_edge_stored [OF assms lo hi pre] .
    then have "max (mat_at (st_tab s (a + 1 + (N - 1) * N)) I0 I0) MIN_ALPHA
          = mat_at (st_tab s (a + 1 + (N - 1) * N)) I0 I0"
      and "max (mat_at (st_tab s (a + 1 + (N - 1) * N)) I1 I1) MIN_ALPHA
          = mat_at (st_tab s (a + 1 + (N - 1) * N)) I1 I1"
      by (simp_all add: edge_stored_def max_absorb1)
    with hi firstGuess_edge_fields [of env N a averageDir "st_tab s" ltc] run
    show ?thesis by simp
  qed
  have interior: "\<not> isot
       \<and> (\<exists>L. averageDir = Some L
             \<and> X l = (vec_at L I2, 0, - vec_at L I0) \<and> Y l = (0, 1, 0) \<and> Z l = L)
       \<and> m11 l = m11 ltc \<and> m22 l = m22 ltc \<and> m13 l = m13 ltc"
    if g: "t \<noteq> N - 1 \<and> firstGuess env N a t averageDir tab ltc = Some (l, isot)" for l isot
  proof -
    from g obtain L where "averageDir = Some L" "\<not> isot"
      "l = LTC_update env (ltc\<lparr>X := (vec_at L I2, 0, - vec_at L I0), Y := (0, 1, 0), Z := L\<rparr>)"
      using firstGuess_interior [of t N env a averageDir tab ltc l isot] by blast
    then show ?thesis by simp
  qed
  have cell: "\<exists>V alpha albedo l. viewDir N t = Some V \<and> cellAlpha N a = Some alpha
            \<and> computeNorm brdf V alpha = Some albedo
            \<and> firstGuess env N a t (computeAverageDir brdf V alpha) (st_tab u)
                 ((st_ltc u)\<lparr>amplitude := albedo\<rparr>) = Some (l, t = N - 1)
            \<and> st_ltc u' = fit env l brdf V alpha 0.05 (t = N - 1)
            \<and> u' = storeCell N a t (fit env l brdf V alpha 0.05 (t = N - 1)) u"
    if c: "fitCell env brdf N a t u = Some u'" for u u'
    using fitCell_lobe [OF c] .
  have chain: "fitRow env brdf N a u = loop_down (fitCell env brdf N a) 0 (t - 1) u2
       \<and> (\<exists>u0 V' alpha' albedo' l'.
             fitCell env brdf N a (t + 1) u0 = Some u1
           \<and> viewDir N (t + 1) = Some V' \<and> cellAlpha N a = Some alpha'
           \<and> computeNorm brdf V' alpha' = Some albedo'
           \<and> firstGuess env N a (t + 1) (computeAverageDir brdf V' alpha') (st_tab u0)
                ((st_ltc u0)\<lparr>amplitude := albedo'\<rparr>) = Some (l', t + 1 = N - 1)
           \<and> st_ltc u1 = fit env l' brdf V' alpha' 0.05 (t + 1 = N - 1)
           \<and> (\<exists>V alpha albedo l.
                 viewDir N t = Some V \<and> cellAlpha N a = Some alpha
               \<and> computeNorm brdf V alpha = Some albedo
               \<and> firstGuess env N a t (computeAverageDir brdf V alpha) (st_tab u1)
                    ((st_ltc u1)\<lparr>amplitude := albedo\<rparr>) = Some (l, False)
               \<and> m11 l = m11 (fit env l' brdf V' alpha' 0.05 (t + 1 = N - 1))
               \<and> m22 l = m22 (fit env l' brdf V' alpha' 0.05 (t + 1 = N - 1))
               \<and> m13 l = m13 (fit env l' brdf V' alpha' 0.05 (t + 1 = N - 1))
               \<and> st_ltc u2 = fit env l brdf V alpha 0.05 False))"
    if h: "0 \<le> t \<and> t < N - 1
          \<and> loop_down (fitCell env brdf N a) (t + 1) (N - 1) u = Some u1
          \<and> fitCell env brdf N a t u1 = Some u2"
    for u u1 u2
  proof -
    from h have lo: "0 \<le> t" and hi: "t < N - 1"
      and pre: "loop_down (fitCell env brdf N a) (t + 1) (N - 1) u = Some u1"
      and cur: "fitCell env brdf N a t u1 = Some u2" by simp_all
    have "fitRow env brdf N a u =
        (case loop_down (fitCell env brdf N a) (t + 1) (N - 1) u of
           None \<Rightarrow> None | Some s' \<Rightarrow> loop_down (fitCell env brdf N a) 0 (t + 1 - 1) s')"
      unfolding fitRow_def using lo hi by (intro loop_down_split) simp_all
    with pre have "fitRow env brdf N a u = loop_down (fitCell env brdf N a) 0 t u1" by simp
    with lo cur have run: "fitRow env brdf N a u = loop_down (fitCell env brdf N a) 0 (t - 1) u2"
      by (simp add: loop_down_step [of 0 t])
    from hi have "t + 1 \<le> N - 1" by simp
    from loop_down_last [OF pre this] obtain u0
      where prev: "fitCell env brdf N a (t + 1) u0 = Some u1" by blast
    from fitCell_lobe [OF prev] obtain V' alpha' albedo' l' where
      p: "viewDir N (t + 1) = Some V'" "cellAlpha N a = Some alpha'"
        "computeNorm brdf V' alpha' = Some albedo'"
        "firstGuess env N a (t + 1) (computeAverageDir brdf V' alpha') (st_tab u0)
           ((st_ltc u0)\<lparr>amplitude := albedo'\<rparr>) = Some (l', t + 1 = N - 1)"
        "st_ltc u1 = fit env l' brdf V' alpha' 0.05 (t + 1 = N - 1)"
      by blast
    from fitCell_lobe [OF cur] obtain V alpha albedo l where
      q: "viewDir N t = Some V" "cellAlpha N a = Some alpha"
        "computeNorm brdf V alpha = Some albedo"
        "firstGuess env N a t (computeAverageDir brdf V alpha) (st_tab u1)
           ((st_ltc u1)\<lparr>amplitude := albedo\<rparr>) = Some (l, t = N - 1)"
        "st_ltc u2 = fit env l brdf V alpha 0.05 (t = N - 1)"
      by blast
    from hi have ne: "t \<noteq> N - 1" by simp
    from firstGuess_interior [OF ne q(4)] obtain L where
      "l = LTC_update env ((st_ltc u1)\<lparr>amplitude := albedo\<rparr>
             \<lparr>X := (vec_at L I2, 0, - vec_at L I0), Y := (0, 1, 0), Z := L\<rparr>)"
      by blast
    then have keep: "m11 l = m11 (st_ltc u1)" "m22 l = m22 (st_ltc u1)" "m13 l = m13 (st_ltc u1)"
      by simp_all
    have inner: "\<exists>V alpha albedo l.
                 viewDir N t = Some V \<and> cellAlpha N a = Some alpha
               \<and> computeNorm brdf V alpha = Some albedo
               \<and> firstGuess env N a t (computeAverageDir brdf V alpha) (st_tab u1)
                    ((st_ltc u1)\<lparr>amplitude := albedo\<rparr>) = Some (l, False)
               \<and> m11 l = m11 (fit env l' brdf V' alpha' 0.05 (t + 1 = N - 1))
               \<and> m22 l = m22 (fit env l' brdf V' alpha' 0.05 (t + 1 = N - 1))
               \<and> m13 l = m13 (fit env l' brdf V' alpha' 0.05 (t + 1 = N - 1))
               \<and> st_ltc u2 = fit env l brdf V alpha 0.05 False"
      using q keep ne unfolding p(5)
      by (intro exI [of _ V] exI [of _ alpha] exI [of _ albedo] exI [of _ l]) simp
    from run prev p inner show ?thesis by blast
  qed
  from first edge interior cell chain show ?thesis by blast
qed

theorem warm_start_witness:
  "scales_on_diagonal example_env
   \<and> (0::int) \<le> 0 \<and> (0::int) < 2 - 1
   \<and> (\<exists>s l. loop_down (fitRow example_env example_brdf 2) (0 + 1) (2 - 1) example_state = Some s
          \<and> firstGuess example_env 2 0 (2 - 1) None (st_tab s) (st_ltc s) = Some (l, True)
          \<and> m11 l = mat_at (st_tab s (0 + 1 + (2 - 1) * 2)) I0 I0
          \<and> m22 l = mat_at (st_tab s (0 + 1 + (2 - 1) * 2)) I1 I1)
   \<and> (\<exists>l. firstGuess example_env 2 0 0 (Some (0, 0, 1)) (st_tab example_state)
              (st_ltc example_state) = Some (l, False)
          \<and> Z l = (0, 0, 1) \<and> m11 l = m11 (st_ltc example_state))
   \<and> (\<exists>u1 u2 u0. loop_down (fitCell example_env example_brdf 2 0) (0 + 1) (2 - 1) example_state
                  = Some u1
          \<and> fitCell example_env example_brdf 2 0 0 u1 = Some u2
          \<and> fitCell example_env example_brdf 2 0 (0 + 1) u0 = Some u1
          \<and> fitRow example_env example_brdf 2 0 example_state
              = loop_down (fitCell example_env example_brdf 2 0) 0 (0 - 1) u2)"
proof -
  note W = warm_start [OF example_scales_on_diagonal, where N = 2 and a = 0 and t = 0
      and brdf = example_brdf and ?s0.0 = example_state]
  have rows: "\<exists>s. loop_down (fitRow example_env example_brdf 2) (0 + 1) (2 - 1) example_state = Some s"
    unfolding fitRow_def by (intro loop_down_total example_fitCell_defined) simp
  then obtain s where s: "loop_down (fitRow example_env example_brdf 2) (0 + 1) (2 - 1)
      example_state = Some s" by blast
  have edge: "\<exists>l. firstGuess example_env 2 0 (2 - 1) None (st_tab s) (st_ltc s) = Some (l, True)
          \<and> m11 l = mat_at (st_tab s (0 + 1 + (2 - 1) * 2)) I0 I0
          \<and> m22 l = mat_at (st_tab s (0 + 1 + (2 - 1) * 2)) I1 I1"
    using W [where s = s and averageDir = None and ltc = "st_ltc s" and tab = "st_tab s"] s
    by auto
  have g: "\<exists>l isot. firstGuess example_env 2 0 0 (Some (0, 0, 1)) (st_tab example_state)
              (st_ltc example_state) = Some (l, isot)"
    by (auto simp: firstGuess_def Let_def)
  then obtain l isot where l: "firstGuess example_env 2 0 0 (Some (0, 0, 1))
      (st_tab example_state) (st_ltc example_state) = Some (l, isot)" by blast
  have "(0::int) \<noteq> 2 - 1" by simp
  with l W [where s = s and averageDir = "Some (0, 0, 1)" and tab = "st_tab example_state"
      and ltc = "st_ltc example_state"]
  have "\<not> isot \<and> Z l = (0, 0, 1) \<and> m11 l = m11 (st_ltc example_state)"
    by auto
  with l have interior: "\<exists>l. firstGuess example_env 2 0 0 (Some (0, 0, 1)) (st_tab example_state)
              (st_ltc example_state) = Some (l, False)
          \<and> Z l = (0, 0, 1) \<and> m11 l = m11 (st_ltc example_state)"
    by auto
  have "\<exists>u1. loop_down (fitCell example_env example_brdf 2 0) (0 + 1) (2 - 1) example_state = Some u1"
    by (intro loop_down_total example_fitCell_defined) simp
  then obtain u1 where u1: "loop_down (fitCell example_env example_brdf 2 0) (0 + 1) (2 - 1)
      example_state = Some u1" by blast
  obtain u2 where u2: "fitCell example_env example_brdf 2 0 0 u1 = Some u2"
    using example_fitCell_defined [of 2 0 0 u1] by auto
  have "(0::int) \<le> 0 \<and> (0::int) < 2 - 1" by simp
  with u1 u2 W [where s = s and averageDir = None and ltc = "st_ltc s" and tab = "st_tab s"]
  have chain: "fitRow example_env example_brdf 2 0 example_state
              = loop_down (fitCell example_env example_brdf 2 0) 0 (0 - 1) u2
      \<and> (\<exists>u0. fitCell example_env example_brdf 2 0 (0 + 1) u0 = Some u1)"
    by blast
  from example_scales_on_diagonal s edge interior u1 u2 chain show ?thesis
    by auto
qed

section \<open>The grid of size one\<close>








end
